theory Spec2Isabelle
  imports Main
begin

section \<open>Python values and string helpers\<close>

text \<open>
  JSON-like Python values as they reach \<open>objectify\<close>: \<open>None\<close>, \<open>bool\<close>, \<open>int\<close>
  (unbounded), \<open>str\<close>, lists and dicts with string keys (kept in insertion order).
  \<open>POther\<close> stands for any other object (a float, a datetime, ...), named by its
  \<open>repr\<close>; \<open>objectify\<close> never looks inside one.
\<close>

datatype pyval =
    PNone
  | PBool bool
  | PInt int
  | PStr string
  | POther string
  | PList "pyval list"
  | PDict "(string \<times> pyval) list"

text \<open>\<open>needle in haystack\<close> for two \<open>str\<close>: a contiguous occurrence.\<close>

fun starts_with :: "string \<Rightarrow> string \<Rightarrow> bool" where
  "starts_with [] s = True"
| "starts_with (p # ps) [] = False"
| "starts_with (p # ps) (c # cs) = (p = c \<and> starts_with ps cs)"

fun str_contains :: "string \<Rightarrow> string \<Rightarrow> bool" where
  "str_contains needle [] = (needle = [])"
| "str_contains needle (c # cs) = (starts_with needle (c # cs) \<or> str_contains needle cs)"

text \<open>\<open>str(n)\<close> for an \<open>int\<close>: decimal digits, a leading minus sign when negative.\<close>

definition digit_char :: "nat \<Rightarrow> char" where
  "digit_char d = ''0123456789'' ! (d mod 10)"

fun str_nat :: "nat \<Rightarrow> string" where
  "str_nat n = (if n < 10 then [digit_char n] else str_nat (n div 10) @ [digit_char (n mod 10)])"

declare str_nat.simps [simp del]

definition str_int :: "int \<Rightarrow> string" where
  "str_int i = (if i < 0 then CHR ''-'' # str_nat (nat (- i)) else str_nat (nat i))"

text \<open>\<open>isinstance(v, int)\<close>: \<open>bool\<close> is a subclass of \<open>int\<close> in Python.\<close>

fun isinstance_int :: "pyval \<Rightarrow> bool" where
  "isinstance_int (PInt n) = True"
| "isinstance_int (PBool b) = True"
| "isinstance_int v = False"

text \<open>The numeric value compared by \<open>v > 2147483647\<close> (\<open>True\<close> is 1, \<open>False\<close> is 0).\<close>

fun int_value :: "pyval \<Rightarrow> int" where
  "int_value (PInt n) = n"
| "int_value (PBool b) = (if b then 1 else 0)"
| "int_value v = 0"

text \<open>\<open>str(v)\<close> on the values \<open>objectify\<close> converts.\<close>

fun py_str :: "pyval \<Rightarrow> string" where
  "py_str (PInt n) = str_int n"
| "py_str (PBool b) = (if b then ''True'' else ''False'')"
| "py_str v = []"

text \<open>\<open>isinstance(item, (dict, list))\<close>.\<close>

fun isinstance_dict_list :: "pyval \<Rightarrow> bool" where
  "isinstance_dict_list (PDict kvs) = True"
| "isinstance_dict_list (PList items) = True"
| "isinstance_dict_list v = False"

section \<open>objectify (derailedapi/database.py)\<close>

text \<open>
  The dict branch rewrites the entry of each key in place while iterating (no key is
  added or removed, so the iteration sees every original entry once); the list branch
  builds a new list. The model returns the resulting value. A dict value that is itself
  a dict matches neither the \<open>int\<close> test nor the \<open>list\<close> test and is left as it is.
\<close>

fun objectify :: "pyval \<Rightarrow> pyval" where
  "objectify (PDict kvs) =
     PDict (map (\<lambda>(k, v).
       (k, if isinstance_int v \<and> int_value v > 2147483647
              \<or> isinstance_int v \<and> str_contains ''permissions'' k
           then PStr (py_str v)
           else (case v of
                   PList items \<Rightarrow>
                     PList (map (\<lambda>item. if isinstance_dict_list item then objectify item
                                         else item) items)
                 | _ \<Rightarrow> v))) kvs)"
| "objectify (PList items) =
     PList (map (\<lambda>item. if isinstance_dict_list item then objectify item else item) items)"
| "objectify data = data"

section \<open>Library functions used by the token codec\<close>

subsection \<open>\<open>str.split\<close>, \<open>rsplit\<close>, \<open>int\<close>\<close>

text \<open>
  A \<open>str\<close> token is handled as its encoded bytes (\<open>token.encode()\<close>); the separator
  \<open>.\<close> is ASCII, so splitting the text and splitting the bytes agree.
  \<open>py_split sep s\<close> is \<open>s.split(sep)\<close> for a one-character separator: it always returns
  at least one fragment.
\<close>

fun py_split :: "char \<Rightarrow> string \<Rightarrow> string list" where
  "py_split sep [] = [[]]"
| "py_split sep (c # cs) =
     (if c = sep then [] # py_split sep cs
      else (case py_split sep cs of
              [] \<Rightarrow> [[c]]
            | f # fs \<Rightarrow> (c # f) # fs))"

text \<open>\<open>fragmented[0]\<close>; the list is never empty, the first case is there for totality.\<close>

definition first_fragment :: "string list \<Rightarrow> string" where
  "first_fragment fragmented = (case fragmented of [] \<Rightarrow> [] | f # _ \<Rightarrow> f)"

text \<open>
  \<open>s.rsplit(sep, 1)\<close> when \<open>sep\<close> occurs in \<open>s\<close>: the text before the last separator
  and the text after it; \<open>None\<close> when \<open>sep\<close> does not occur.
\<close>

fun rsplit1 :: "char \<Rightarrow> string \<Rightarrow> (string \<times> string) option" where
  "rsplit1 sep [] = None"
| "rsplit1 sep (c # cs) =
     (case rsplit1 sep cs of
        Some (a, b) \<Rightarrow> Some (c # a, b)
      | None \<Rightarrow> (if c = sep then Some ([], cs) else None))"

text \<open>
  \<open>int(b)\<close> for \<open>bytes\<close>: surrounding ASCII whitespace is stripped, one sign is allowed,
  then decimal digits, where single underscores may stand between digits. \<open>None\<close> is the
  \<open>ValueError\<close>.
\<close>

definition is_space :: "char \<Rightarrow> bool" where
  "is_space c = (c \<in> set [CHR '' '', CHR 0x09, CHR 0x0A, CHR 0x0B, CHR 0x0C, CHR 0x0D])"

definition is_digit :: "char \<Rightarrow> bool" where
  "is_digit c = (c \<in> set ''0123456789'')"

definition digit_value :: "char \<Rightarrow> nat" where
  "digit_value c = of_char c - 48"

definition py_strip :: "string \<Rightarrow> string" where
  "py_strip s = rev (dropWhile is_space (rev (dropWhile is_space s)))"

fun parse_digits :: "nat \<Rightarrow> bool \<Rightarrow> string \<Rightarrow> nat option" where
  "parse_digits acc after_digit [] = (if after_digit then Some acc else None)"
| "parse_digits acc after_digit (c # cs) =
     (if is_digit c then parse_digits (acc * 10 + digit_value c) True cs
      else if c = CHR ''_'' \<and> after_digit then parse_digits acc False cs
      else None)"

definition py_int :: "string \<Rightarrow> int option" where
  "py_int b =
     (case py_strip b of
        [] \<Rightarrow> None
      | c # cs \<Rightarrow>
          if c = CHR ''-'' then map_option (\<lambda>n. - int n) (parse_digits 0 False cs)
          else if c = CHR ''+'' then map_option int (parse_digits 0 False cs)
          else map_option int (parse_digits 0 False (c # cs)))"

subsection \<open>\<open>base64.b64encode\<close> and \<open>base64.b64decode\<close>\<close>

definition b64_alphabet :: string where
  "b64_alphabet = ''ABCDEFGHIJKLMNOPQRSTUVWXYZabcdefghijklmnopqrstuvwxyz0123456789+/''"

definition b2a_char :: "nat \<Rightarrow> char" where
  "b2a_char i = b64_alphabet ! (i mod 64)"

fun index_of :: "'a \<Rightarrow> 'a list \<Rightarrow> nat option" where
  "index_of x [] = None"
| "index_of x (y # ys) = (if x = y then Some 0 else map_option Suc (index_of x ys))"

definition a2b_char :: "char \<Rightarrow> nat option" where
  "a2b_char c = index_of c b64_alphabet"

text \<open>
  \<open>b64encode\<close>: three bytes become four characters; a last group of one or two bytes is
  padded with \<open>=\<close>.
\<close>

fun b64encode :: "string \<Rightarrow> string" where
  "b64encode [] = []"
| "b64encode [x] =
     (let a = of_char x in
      [b2a_char (a div 4), b2a_char ((a mod 4) * 16), CHR ''='', CHR ''=''])"
| "b64encode [x, y] =
     (let a = of_char x; b = of_char y in
      [b2a_char (a div 4), b2a_char ((a mod 4) * 16 + b div 16),
       b2a_char ((b mod 16) * 4), CHR ''=''])"
| "b64encode (x # y # z # rest) =
     (let a = of_char x; b = of_char y; c = of_char z in
      [b2a_char (a div 4), b2a_char ((a mod 4) * 16 + b div 16),
       b2a_char ((b mod 16) * 4 + c div 64), b2a_char (c mod 64)] @ b64encode rest)"

text \<open>
  \<open>b64decode(s)\<close> with the default \<open>validate=False\<close> is CPython's
  \<open>binascii.a2b_base64\<close> in its lenient mode, a loop over the characters with the
  position in the current group of four (\<open>quad_pos\<close>), the bits left over from the
  previous character (\<open>leftchar\<close>) and the count of padding characters seen (\<open>pads\<close>):
  characters outside the alphabet are skipped, padding that completes a group ends the
  input, and a group left unfinished at the end is the \<open>binascii.Error\<close> (\<open>None\<close>).
\<close>

fun a2b_loop :: "nat \<Rightarrow> nat \<Rightarrow> nat \<Rightarrow> string \<Rightarrow> string \<Rightarrow> string option" where
  "a2b_loop quad_pos leftchar pads out [] = (if quad_pos \<noteq> 0 then None else Some out)"
| "a2b_loop quad_pos leftchar pads out (c # cs) =
     (if c = CHR ''='' then
        (if quad_pos \<ge> 2 then
           (if quad_pos + (pads + 1) \<ge> 4 then Some out
            else a2b_loop quad_pos leftchar (pads + 1) out cs)
         else a2b_loop quad_pos leftchar pads out cs)
      else
        (case a2b_char c of
           None \<Rightarrow> a2b_loop quad_pos leftchar pads out cs
         | Some v \<Rightarrow>
             if quad_pos = 0 then a2b_loop 1 v 0 out cs
             else if quad_pos = 1 then
               a2b_loop 2 (v mod 16) 0 (out @ [char_of (leftchar * 4 + v div 16)]) cs
             else if quad_pos = 2 then
               a2b_loop 3 (v mod 4) 0 (out @ [char_of (leftchar * 16 + v div 4)]) cs
             else a2b_loop 0 0 0 (out @ [char_of (leftchar * 64 + v)]) cs))"

definition b64decode :: "string \<Rightarrow> string option" where
  "b64decode s = a2b_loop 0 0 0 [] s"

section \<open>Errors\<close>

text \<open>
  Every exception a modelled function can leave with. \<open>HTTPError status message\<close> is
  apiflask's \<open>HTTPError\<close>, the only one the transport layer turns into a response of
  that status and message. \<open>DoesNotExist\<close> and \<open>MultipleObjectsReturned\<close> are what a
  cqlengine \<open>.get()\<close> raises on no row and on more than one row; \<open>QueryException\<close>
  is what \<open>.only\<close> and \<open>.defer\<close> raise on a field that is no column of the model.
  \<open>BadSignature\<close> is itsdangerous' exception (with its subclass \<open>BadTimeSignature\<close>).
  \<open>TypeError\<close> and \<open>VerificationError\<close> stand for the exceptions of the libraries on
  a \<open>None\<close> argument and for argon2's exceptions other than a mismatch.
\<close>

datatype error =
    HTTPError nat string
  | DoesNotExist
  | MultipleObjectsReturned
  | QueryException
  | BadSignature
  | TypeError
  | VerificationError

section \<open>The tables (derailedapi/database.py)\<close>

text \<open>
  One record per cqlengine model, one field per column. A primary key is never null; every
  other column is nullable, so it holds an \<open>option\<close>. A model instance built from a
  query that selected only some columns has the same type: a column that was not selected
  reads as the column's default, or as \<open>None\<close> when it has none.
\<close>

record user =
  u_id :: int
  u_email :: "string option"
  u_password :: "string option"
  u_username :: "string option"
  u_discriminator :: "string option"
  u_avatar :: "string option"
  u_banner :: "string option"
  u_flags :: "int option"
  u_bot :: "bool option"
  u_verified :: "bool option"

record settings =
  s_user_id :: int
  s_locale :: "string option"
  s_developer_mode :: "bool option"
  s_theme :: "string option"
  s_status :: "string option"
  s_mfa_enabled :: "bool option"
  s_mfa_code :: "string option"
  s_friend_requests_off :: "bool option"

record recovery_code =
  rc_user_id :: int
  rc_code :: "string option"

text \<open>Of \<open>Member\<close> only the two columns a query of this development filters on are kept.\<close>

record member =
  m_guild_id :: int
  m_user_id :: "int option"

record gateway_session_limit =
  gsl_user_id :: int
  gsl_total :: "int option"
  gsl_remaining :: "int option"
  gsl_max_concurrency :: "int option"

text \<open>
  The keyed-record store: the rows of each table. A \<open>GatewaySessionLimit\<close> row is
  written with a time to live of 43200 seconds, after which the database drops it; a
  store state holds the rows alive at the time of the request.
\<close>

record store =
  users :: "user list"
  settings_rows :: "settings list"
  recovery_codes :: "recovery_code list"
  members :: "member list"
  gateway_session_limits :: "gateway_session_limit list"

subsection \<open>Queries\<close>

text \<open>
  Modelled from the spec: \<open>NotFound\<close>, the exception that the routes import from the
  database module and catch around \<open>.get()\<close>; no source file at hand defines it. The
  spec gives the store's \<open>get\<close> as returning the record or \<open>NotFound\<close>, so it is the
  exception of a \<open>.get()\<close> that matches no row, cqlengine's \<open>DoesNotExist\<close>.
  \<open>Model.objects(cond).get()\<close> returns the one row that matches, raises \<open>DoesNotExist\<close>
  when none does and \<open>MultipleObjectsReturned\<close> when several do.
\<close>

definition objects_get :: "'a list \<Rightarrow> ('a \<Rightarrow> bool) \<Rightarrow> error + 'a" where
  "objects_get rows cond =
     (case filter cond rows of
        [] \<Rightarrow> Inl DoesNotExist
      | [r] \<Rightarrow> Inr r
      | _ \<Rightarrow> Inl MultipleObjectsReturned)"

text \<open>\<open>Model.objects(cond).count()\<close>.\<close>

definition objects_count :: "'a list \<Rightarrow> ('a \<Rightarrow> bool) \<Rightarrow> nat" where
  "objects_count rows cond = length (filter cond rows)"

text \<open>
  \<open>Model.create(...)\<close> is an insert, which in the database replaces a row of the same
  primary key.
\<close>

definition objects_create :: "('a \<Rightarrow> int) \<Rightarrow> 'a \<Rightarrow> 'a list \<Rightarrow> 'a list" where
  "objects_create key r rows = filter (\<lambda>x. key x \<noteq> key r) rows @ [r]"

text \<open>A Python truth test on a nullable boolean column: \<open>None\<close> and \<open>False\<close> are false.\<close>

definition truthy_bool :: "bool option \<Rightarrow> bool" where
  "truthy_bool b = (b = Some True)"

text \<open>A Python truth test on an optional list: \<open>None\<close> and \<open>[]\<close> are false.\<close>

definition truthy_list :: "'a list option \<Rightarrow> bool" where
  "truthy_list l = (case l of None \<Rightarrow> False | Some [] \<Rightarrow> False | Some (_ # _) \<Rightarrow> True)"

subsection \<open>Column selection on \<open>User\<close>: \<open>only\<close> and \<open>defer\<close>\<close>

definition user_columns :: "string list" where
  "user_columns = [''id'', ''email'', ''password'', ''username'', ''discriminator'',
                   ''avatar'', ''banner'', ''flags'', ''bot'', ''verified'']"

text \<open>
  The columns a query selects (cqlengine's \<open>_select_fields\<close>): all columns when neither
  list is set; otherwise all columns without the deferred ones (the partition key \<open>id\<close> if
  that leaves nothing), restricted to the \<open>only\<close> list when that is set. An empty
  selection is a \<open>QueryException\<close> (\<open>None\<close> here).
\<close>

definition select_fields :: "string list option \<Rightarrow> string list option \<Rightarrow> string list option" where
  "select_fields only_fields defer_fields =
     (if truthy_list defer_fields \<or> truthy_list only_fields then
        (let fields0 = user_columns;
             fields1 = (case defer_fields of
                          Some (d # ds) \<Rightarrow>
                            (let kept = filter (\<lambda>f. f \<notin> set (d # ds)) fields0
                             in if kept = [] then [''id''] else kept)
                        | _ \<Rightarrow> fields0);
             fields2 = (case only_fields of
                          Some (f # fs) \<Rightarrow> filter (\<lambda>c. c \<in> set (f # fs)) fields1
                        | _ \<Rightarrow> fields1)
         in if fields2 = [] then None else Some fields2)
      else Some user_columns)"

text \<open>
  The instance built from a row of which only \<open>cols\<close> were selected. A column left out
  takes the default the model declares: \<open>forger.forge()\<close> for \<open>id\<close> (the value
  \<open>forged\<close>), the empty string for \<open>avatar\<close> and \<open>banner\<close>, 0 for \<open>flags\<close>, \<open>False\<close>
  for \<open>bot\<close> and \<open>verified\<close>, and \<open>None\<close> for the columns without a default.
\<close>

definition user_instance :: "int \<Rightarrow> string list \<Rightarrow> user \<Rightarrow> user" where
  "user_instance forged cols row =
     \<lparr> u_id = (if ''id'' \<in> set cols then u_id row else forged),
       u_email = (if ''email'' \<in> set cols then u_email row else None),
       u_password = (if ''password'' \<in> set cols then u_password row else None),
       u_username = (if ''username'' \<in> set cols then u_username row else None),
       u_discriminator = (if ''discriminator'' \<in> set cols then u_discriminator row else None),
       u_avatar = (if ''avatar'' \<in> set cols then u_avatar row else Some []),
       u_banner = (if ''banner'' \<in> set cols then u_banner row else Some []),
       u_flags = (if ''flags'' \<in> set cols then u_flags row else Some 0),
       u_bot = (if ''bot'' \<in> set cols then u_bot row else Some False),
       u_verified = (if ''verified'' \<in> set cols then u_verified row else Some False) \<rparr>"

text \<open>
  \<open>User.objects(cond).only(only_fields).defer(defer_fields).get()\<close>, where \<open>None\<close> for a
  list means the call is absent. \<open>only\<close> and \<open>defer\<close> refuse a name that is no column
  when they are called, before the query runs.
\<close>

definition user_get ::
  "int \<Rightarrow> user list \<Rightarrow> (user \<Rightarrow> bool) \<Rightarrow> string list option \<Rightarrow> string list option
     \<Rightarrow> error + user" where
  "user_get forged rows cond only_fields defer_fields =
     (if (case only_fields of None \<Rightarrow> False | Some fs \<Rightarrow> \<exists>f \<in> set fs. f \<notin> set user_columns)
      then Inl QueryException
      else if (case defer_fields of None \<Rightarrow> False
               | Some fs \<Rightarrow> \<exists>f \<in> set fs. f \<notin> set user_columns)
      then Inl QueryException
      else (case select_fields only_fields defer_fields of
              None \<Rightarrow> Inl QueryException
            | Some cols \<Rightarrow>
                (case objects_get rows cond of
                   Inl e \<Rightarrow> Inl e
                 | Inr row \<Rightarrow> Inr (user_instance forged cols row))))"

section \<open>The token codec (derailedapi/database.py)\<close>

subsection \<open>itsdangerous' \<open>TimestampSigner\<close>\<close>

text \<open>
  The keyed signature is opaque: \<open>get_signature sg key value\<close> is the base64 text of the
  HMAC of \<open>value\<close> under the key derived from \<open>key\<close>, and \<open>verify_signature sg key value
  sig\<close> is the library's check of \<open>sig\<close> against it. \<open>encode_timestamp sg now\<close> is the
  base64 text of the clock reading \<open>now\<close>, \<open>decode_timestamp\<close> its inverse (\<open>None\<close> when
  the text is no timestamp). The separator is \<open>.\<close>.
\<close>

record signer =
  get_signature :: "string \<Rightarrow> string \<Rightarrow> string"
  verify_signature :: "string \<Rightarrow> string \<Rightarrow> string \<Rightarrow> bool"
  encode_timestamp :: "nat \<Rightarrow> string"
  decode_timestamp :: "string \<Rightarrow> nat option"

text \<open>
  What the library promises of these four: a signature it made verifies under the same
  key, a timestamp it encoded decodes, and neither text contains the separator (the
  separator is required to lie outside the base64 alphabet).
\<close>

definition signer_sound :: "signer \<Rightarrow> bool" where
  "signer_sound sg =
     ((\<forall>key v. verify_signature sg key v (get_signature sg key v))
      \<and> (\<forall>key v. CHR ''.'' \<notin> set (get_signature sg key v))
      \<and> (\<forall>now. CHR ''.'' \<notin> set (encode_timestamp sg now))
      \<and> (\<forall>now. decode_timestamp sg (encode_timestamp sg now) \<noteq> None))"

text \<open>\<open>TimestampSigner(key).sign(value)\<close> at clock reading \<open>now\<close>.\<close>

definition timestamp_sign :: "signer \<Rightarrow> string \<Rightarrow> nat \<Rightarrow> string \<Rightarrow> string" where
  "timestamp_sign sg key now value0 =
     (let timestamp = encode_timestamp sg now;
          value1 = value0 @ ''.'' @ timestamp
      in value1 @ ''.'' @ get_signature sg key value1)"

text \<open>
  \<open>Signer.unsign\<close>: the text before the last separator when the text after it is its
  signature. \<open>Inl payload\<close> is \<open>BadSignature\<close> with the payload it carries (none when
  there is no separator at all).
\<close>

definition signer_unsign :: "signer \<Rightarrow> string \<Rightarrow> string \<Rightarrow> string option + string" where
  "signer_unsign sg key signed_value =
     (case rsplit1 CHR ''.'' signed_value of
        None \<Rightarrow> Inl None
      | Some (value0, sig) \<Rightarrow>
          if verify_signature sg key value0 sig then Inr value0 else Inl (Some value0))"

text \<open>
  \<open>TimestampSigner.unsign\<close> with no \<open>max_age\<close>: it first splits the timestamp off what
  \<open>Signer.unsign\<close> returned (or off the payload of its error), then raises the signature
  error if there was one, then refuses a timestamp that does not decode. No age is checked.
\<close>

definition timestamp_unsign :: "signer \<Rightarrow> string \<Rightarrow> string \<Rightarrow> error + string" where
  "timestamp_unsign sg key signed_value =
     (let (sig_error, result) =
            (case signer_unsign sg key signed_value of
               Inr v \<Rightarrow> (False, v)
             | Inl payload \<Rightarrow> (True, case payload of None \<Rightarrow> [] | Some p \<Rightarrow> p))
      in case rsplit1 CHR ''.'' result of
           None \<Rightarrow> Inl BadSignature
         | Some (value0, ts_bytes) \<Rightarrow>
             if sig_error then Inl BadSignature
             else if decode_timestamp sg ts_bytes = None then Inl BadSignature
             else Inr value0)"

subsection \<open>create_token and verify_token\<close>

definition create_token :: "signer \<Rightarrow> nat \<Rightarrow> int \<Rightarrow> string \<Rightarrow> string" where
  "create_token sg now user_id user_password =
     timestamp_sign sg user_password now (b64encode (str_int user_id))"

text \<open>
  The \<open>fields\<close> and \<open>rm_fields\<close> arguments: a list of names or one string. A string is
  turned into a list by \<open>list(fields)\<close>, the list of its characters.
\<close>

datatype fields_arg = FieldList "string list" | FieldStr string

fun as_list :: "fields_arg option \<Rightarrow> string list option" where
  "as_list None = None"
| "as_list (Some (FieldList l)) = Some l"
| "as_list (Some (FieldStr s)) = Some (map (\<lambda>c. [c]) s)"

text \<open>
  \<open>verify_token\<close>. \<open>forged\<close> is the identifier \<open>forger.forge\<close> would hand out, the
  default of an \<open>id\<close> that a query did not select. The first lookup sits under a bare
  \<open>except\<close>, so any failure of it is the 401 of the second message; the lookups after
  \<open>unsign\<close> sit under \<open>except BadSignature\<close> only, so their errors pass through.
  \<open>TimestampSigner(None)\<close>, for a row without a password, is a \<open>TypeError\<close> outside
  every \<open>try\<close>.
\<close>

definition verify_token ::
  "signer \<Rightarrow> int \<Rightarrow> store \<Rightarrow> string option \<Rightarrow> fields_arg option \<Rightarrow> fields_arg option
     \<Rightarrow> error + user" where
  "verify_token sg forged st token fields0 rm_fields0 =
     (case token of
        None \<Rightarrow> Inl (HTTPError 401 ''Authorization is invalid'')
      | Some tok \<Rightarrow>
          (let fragmented = py_split CHR ''.'' tok;
               user_id0 = first_fragment fragmented
           in case Option.bind (b64decode user_id0) py_int of
                None \<Rightarrow> Inl (HTTPError 401 ''Failed to get container volume for Authorization'')
              | Some user_id \<Rightarrow>
                  (case user_get forged (users st) (\<lambda>u. u_id u = user_id)
                          (Some [''password'']) None of
                     Inl _ \<Rightarrow> Inl (HTTPError 401 ''Object for Authorization not found'')
                   | Inr user \<Rightarrow>
                       (case u_password user of
                          None \<Rightarrow> Inl TypeError
                        | Some password \<Rightarrow>
                            (case timestamp_unsign sg password tok of
                               Inl _ \<Rightarrow>
                                 Inl (HTTPError 401 ''Signature on Authorization is Invalid'')
                             | Inr _ \<Rightarrow>
                                 (let fields1 = as_list fields0;
                                      rm_fields1 = as_list rm_fields0
                                  in if fields1 = Some [''id''] then Inr (user\<lparr>u_id := user_id\<rparr>)
                                     else if truthy_list fields1 \<and> truthy_list rm_fields1 then
                                       user_get forged (users st) (\<lambda>u. u_id u = user_id)
                                         fields1 rm_fields1
                                     else if truthy_list fields1 then
                                       user_get forged (users st) (\<lambda>u. u_id u = user_id)
                                         fields1 None
                                     else if truthy_list rm_fields1 then
                                       user_get forged (users st) (\<lambda>u. u_id u = user_id)
                                         None rm_fields1
                                     else
                                       user_get forged (users st) (\<lambda>u. u_id u = user_id)
                                         None None))))))"

text \<open>\<open>authorize\<close> (discorse/users/routes.py) passes its arguments on.\<close>

definition authorize ::
  "signer \<Rightarrow> int \<Rightarrow> store \<Rightarrow> string option \<Rightarrow> fields_arg option \<Rightarrow> fields_arg option
     \<Rightarrow> error + user" where
  "authorize sg forged st token fields0 rm_fields0 =
     verify_token sg forged st token fields0 rm_fields0"

section \<open>The user routes (discorse/users/routes.py)\<close>

text \<open>
  The routes import the tables, \<open>create_token\<close>, \<open>verify_token\<close> and \<open>objectify\<close> from
  the database module of their package; the database module at hand is
  derailedapi/database.py, modelled above.
\<close>

subsection \<open>Opaque collaborators\<close>

text \<open>
  argon2's \<open>PasswordHasher\<close>: \<open>hasher_hash\<close> is \<open>hasher.hash\<close> at the time of the
  request (it salts, so it is a function of the request, not of the password alone);
  \<open>hasher_verify stored password\<close> is the outcome of \<open>hasher.verify\<close>: it returns, it
  raises \<open>VerifyMismatchError\<close>, or it raises another exception.
\<close>

datatype verify_result = Verified | VerifyMismatchError | VerifyOtherError

record hasher =
  hasher_hash :: "string \<Rightarrow> string"
  hasher_verify :: "string option \<Rightarrow> string \<Rightarrow> verify_result"

text \<open>The \<open>code\<close> of a login request: an \<open>int\<close> or a \<open>str\<close>.\<close>

datatype mfa_code = CodeInt int | CodeStr string

text \<open>\<open>not code\<close>: true of \<open>None\<close>, of 0 and of the empty string.\<close>

fun code_missing :: "mfa_code option \<Rightarrow> bool" where
  "code_missing None = True"
| "code_missing (Some (CodeInt n)) = (n = 0)"
| "code_missing (Some (CodeStr s)) = (s = [])"

text \<open>
  \<open>code == x\<close> for \<open>x\<close> a nullable text (a recovery code, the TOTP value): an \<open>int\<close> and
  \<open>None\<close> never equal a \<open>str\<close>.
\<close>

fun code_equals :: "mfa_code option \<Rightarrow> string option \<Rightarrow> bool" where
  "code_equals (Some (CodeStr s)) (Some t) = (s = t)"
| "code_equals c x = False"

subsection \<open>Discriminators\<close>

definition is_too_used :: "store \<Rightarrow> string \<Rightarrow> error + unit" where
  "is_too_used st username =
     (let used = objects_count (users st) (\<lambda>u. u_username u = Some username)
      in if used > 9000 then Inl (HTTPError 400 ''Too many people are using this username.'')
         else Inr ())"

text \<open>
  \<open>roll_discriminator\<close>, given the number \<open>random.randint(1, 9999)\<close> returned:
  \<open>'%04d' % discriminator_number\<close> pads the decimal text with zeros to four characters.
\<close>

definition roll_discriminator :: "nat \<Rightarrow> string" where
  "roll_discriminator discriminator_number =
     replicate (4 - length (str_nat discriminator_number)) CHR ''0''
       @ str_nat discriminator_number"

definition get_recoveries :: "store \<Rightarrow> int \<Rightarrow> string option list" where
  "get_recoveries st user_id =
     map rc_code (filter (\<lambda>c. rc_user_id c = user_id) (recovery_codes st))"

text \<open>
  The loop of \<open>get_available_discriminator\<close> over the numbers its rolls draw, one per
  iteration: the first missing (username, discriminator) pair is returned; a pair held by
  several rows raises out of the \<open>try\<close>; \<open>None\<close> when every iteration found a row.
\<close>

fun discriminator_attempts :: "store \<Rightarrow> string \<Rightarrow> nat list \<Rightarrow> error + string option" where
  "discriminator_attempts st username [] = Inr None"
| "discriminator_attempts st username (n # ns) =
     (let discriminator = roll_discriminator n
      in case objects_get (users st)
                (\<lambda>u. u_username u = Some username \<and> u_discriminator u = Some discriminator) of
           Inl DoesNotExist \<Rightarrow> Inr (Some discriminator)
         | Inl e \<Rightarrow> Inl e
         | Inr _ \<Rightarrow> discriminator_attempts st username ns)"

text \<open>\<open>draw i\<close> is the number the roll of iteration \<open>i\<close> of \<open>range(10)\<close> draws.\<close>

definition get_available_discriminator ::
  "store \<Rightarrow> string \<Rightarrow> (nat \<Rightarrow> nat) \<Rightarrow> error + string option" where
  "get_available_discriminator st username draw =
     (case is_too_used st username of
        Inl e \<Rightarrow> Inl e
      | Inr _ \<Rightarrow> discriminator_attempts st username (map draw [0..<10]))"

subsection \<open>verify_mfa\<close>

text \<open>
  \<open>totp_now secret\<close> is \<open>pyotp.TOTP(secret).now()\<close> at the time of the request, or the
  exception it raises. The condition \<open>code not in recoveries or code != totp.now()\<close> is
  evaluated left to right: \<open>totp.now()\<close> is only called for a code that is among the
  recovery codes. The settings query selects the two columns read here.
\<close>

definition verify_mfa ::
  "(string option \<Rightarrow> error + string) \<Rightarrow> store \<Rightarrow> int \<Rightarrow> mfa_code option \<Rightarrow> error + unit" where
  "verify_mfa totp_now st user_id code =
     (case objects_get (settings_rows st) (\<lambda>s. s_user_id s = user_id) of
        Inl e \<Rightarrow> Inl e
      | Inr setting \<Rightarrow>
          (let recoveries = get_recoveries st user_id
           in if truthy_bool (s_mfa_enabled setting) then
                (if code_missing code then
                   Inl (HTTPError 403 ''mfa_code is a required field for users with mfa.'')
                 else if \<not> (\<exists>r \<in> set recoveries. code_equals code r) then
                   Inl (HTTPError 403 ''mfa code is invalid.'')
                 else (case totp_now (s_mfa_code setting) of
                         Inl e \<Rightarrow> Inl e
                       | Inr now_code \<Rightarrow>
                           if \<not> code_equals code (Some now_code) then
                             Inl (HTTPError 403 ''mfa code is invalid.'')
                           else Inr ()))
              else Inr ()))"

subsection \<open>Registration\<close>

record create_user_json =
  cu_email :: string
  cu_username :: string
  cu_password :: string

definition new_user :: "int \<Rightarrow> string \<Rightarrow> string \<Rightarrow> string \<Rightarrow> string \<Rightarrow> user" where
  "new_user forged username email password discriminator =
     \<lparr> u_id = forged, u_email = Some email, u_password = Some password,
       u_username = Some username, u_discriminator = Some discriminator,
       u_avatar = Some [], u_banner = Some [], u_flags = Some 0,
       u_bot = Some False, u_verified = Some False \<rparr>"

definition new_settings :: "int \<Rightarrow> settings" where
  "new_settings user_id =
     \<lparr> s_user_id = user_id, s_locale = Some ''en-US'', s_developer_mode = Some False,
       s_theme = Some ''dark'', s_status = Some ''invisible'', s_mfa_enabled = Some False,
       s_mfa_code = None, s_friend_requests_off = Some False \<rparr>"

text \<open>
  \<open>create_user\<close> returns the new user and the store with the user row and its settings
  row written.
\<close>

definition create_user ::
  "hasher \<Rightarrow> int \<Rightarrow> (nat \<Rightarrow> nat) \<Rightarrow> store \<Rightarrow> create_user_json \<Rightarrow> error + (user \<times> store)" where
  "create_user hs forged draw st json =
     (case objects_get (users st) (\<lambda>u. u_email u = Some (cu_email json)) of
        Inr _ \<Rightarrow> Inl (HTTPError 400 ''This email is already used.'')
      | Inl DoesNotExist \<Rightarrow>
          (case get_available_discriminator st (cu_username json) draw of
             Inl e \<Rightarrow> Inl e
           | Inr None \<Rightarrow> Inl (HTTPError 400 ''Too many people are using this username.'')
           | Inr (Some discriminator) \<Rightarrow>
               (let password = hasher_hash hs (cu_password json);
                    user = new_user forged (cu_username json) (cu_email json) password
                             discriminator;
                    st1 = st\<lparr>users := objects_create u_id user (users st)\<rparr>;
                    st2 = st1\<lparr>settings_rows :=
                                 objects_create s_user_id (new_settings (u_id user))
                                   (settings_rows st1)\<rparr>
                in Inr (user, st2)))
      | Inl e \<Rightarrow> Inl e)"

text \<open>\<open>register\<close>: the token of the new user, and the store after \<open>create_user\<close>.\<close>

definition register ::
  "signer \<Rightarrow> nat \<Rightarrow> hasher \<Rightarrow> int \<Rightarrow> (nat \<Rightarrow> nat) \<Rightarrow> store \<Rightarrow> create_user_json
     \<Rightarrow> error + (string \<times> store)" where
  "register sg now hs forged draw st json =
     (case create_user hs forged draw st json of
        Inl e \<Rightarrow> Inl e
      | Inr (user, st') \<Rightarrow>
          (case u_password user of
             None \<Rightarrow> Inl TypeError
           | Some password \<Rightarrow> Inr (create_token sg now (u_id user) password, st')))"

subsection \<open>login\<close>

record create_token_json =
  json_email :: string
  json_password :: string
  json_code :: "mfa_code option"

text \<open>
  \<open>login\<close>. The user query selects \<open>password\<close> and \<open>id\<close>, the two columns read here. Only
  \<open>NotFound\<close> of the query and \<open>VerifyMismatchError\<close> of the hasher are caught.
\<close>

definition login ::
  "signer \<Rightarrow> nat \<Rightarrow> hasher \<Rightarrow> (string option \<Rightarrow> error + string) \<Rightarrow> int \<Rightarrow> store
     \<Rightarrow> create_token_json \<Rightarrow> error + string" where
  "login sg now hs totp_now forged st json =
     (case user_get forged (users st) (\<lambda>u. u_email u = Some (json_email json))
             (Some [''password'', ''id'']) None of
        Inl DoesNotExist \<Rightarrow> Inl (HTTPError 400 ''Invalid email or password'')
      | Inl e \<Rightarrow> Inl e
      | Inr with_pswd \<Rightarrow>
          (case hasher_verify hs (u_password with_pswd) (json_password json) of
             VerifyMismatchError \<Rightarrow> Inl (HTTPError 400 ''Invalid email or password'')
           | VerifyOtherError \<Rightarrow> Inl VerificationError
           | Verified \<Rightarrow>
               (case verify_mfa totp_now st (u_id with_pswd) (json_code json) of
                  Inl e \<Rightarrow> Inl e
                | Inr _ \<Rightarrow>
                    (case u_password with_pswd of
                       None \<Rightarrow> Inl TypeError
                     | Some password \<Rightarrow>
                         Inr (create_token sg now (u_id with_pswd) password)))))"

subsection \<open>get_gateway\<close>

fun opt_int :: "int option \<Rightarrow> pyval" where
  "opt_int None = PNone"
| "opt_int (Some n) = PInt n"

text \<open>
  \<open>dict(instance)\<close> of a \<open>GatewaySessionLimit\<close>: a cqlengine model lists every column as
  a key, in the order of declaration.
\<close>

definition gsl_dict :: "pyval \<Rightarrow> gateway_session_limit \<Rightarrow> (string \<times> pyval) list" where
  "gsl_dict user_id_value g =
     [(''user_id'', user_id_value), (''total'', opt_int (gsl_total g)),
      (''remaining'', opt_int (gsl_remaining g)),
      (''max_concurrency'', opt_int (gsl_max_concurrency g))]"

text \<open>\<open>d.pop(key)\<close> on a dict that holds the key.\<close>

definition dict_pop :: "string \<Rightarrow> (string \<times> pyval) list \<Rightarrow> (string \<times> pyval) list" where
  "dict_pop key d = filter (\<lambda>(k, v). k \<noteq> key) d"

definition new_gateway_session_limit :: "int \<Rightarrow> gateway_session_limit" where
  "new_gateway_session_limit user_id =
     \<lparr> gsl_user_id = user_id, gsl_total = Some 1000, gsl_remaining = Some 1000,
       gsl_max_concurrency = Some 16 \<rparr>"

record gateway =
  url :: string
  shards :: nat
  session_start_limit :: "(string \<times> pyval) list"

text \<open>
  \<open>get_gateway\<close>. The user comes from \<open>authorize\<close> with \<open>['id']\<close>. A row that is found was
  queried with \<open>defer(['user_id'])\<close>, so the instance reads \<open>None\<close> for that column. When
  no row is found one is created with the defaults, and the store is returned with it.
  \<open>int(guild_count / 1000)\<close> divides as floats and truncates, which is the integer
  quotient for every count a table can hold.
\<close>

definition get_gateway ::
  "signer \<Rightarrow> int \<Rightarrow> store \<Rightarrow> string option \<Rightarrow> error + (gateway \<times> store)" where
  "get_gateway sg forged st authorization =
     (case authorize sg forged st authorization (Some (FieldList [''id''])) None of
        Inl e \<Rightarrow> Inl e
      | Inr user \<Rightarrow>
          (case (case objects_get (gateway_session_limits st)
                        (\<lambda>g. gsl_user_id g = u_id user) of
                   Inr row \<Rightarrow> Inr (gsl_dict PNone row, st)
                 | Inl DoesNotExist \<Rightarrow>
                     (let row = new_gateway_session_limit (u_id user)
                      in Inr (dict_pop ''user_id'' (gsl_dict (PInt (gsl_user_id row)) row),
                              st\<lparr>gateway_session_limits :=
                                    objects_create gsl_user_id row (gateway_session_limits st)\<rparr>))
                 | Inl e \<Rightarrow> Inl e) of
             Inl e \<Rightarrow> Inl e
           | Inr (gateway_session_limit, st') \<Rightarrow>
               (let shards =
                      (if truthy_bool (u_bot user) then
                         (let guild_count =
                                objects_count (members st) (\<lambda>m. m_user_id m = Some (u_id user))
                          in max (guild_count div 1000) 1)
                       else 1)
                in Inr (\<lparr> url = ''wss://gateway.derailed.one'', shards = shards,
                          session_start_limit = gateway_session_limit \<rparr>, st'))))"

section \<open>A concrete store and concrete collaborators\<close>

text \<open>
  The closed examples below run the functions on these. The signer is a stand-in with the
  shape of the real one: a keyed checksum, printed in decimal, in place of the HMAC, and
  the clock reading printed in decimal in place of its base64 text.
\<close>

definition demo_checksum :: "string \<Rightarrow> nat" where
  "demo_checksum s = foldl (\<lambda>a c. (a * 31 + of_char c) mod 65521) 7 s"

definition demo_signer :: signer where
  "demo_signer =
     \<lparr> get_signature = (\<lambda>key v. str_nat (demo_checksum (key @ ''/'' @ v))),
       verify_signature = (\<lambda>key v sig. sig = str_nat (demo_checksum (key @ ''/'' @ v))),
       encode_timestamp = str_nat,
       decode_timestamp = parse_digits 0 False \<rparr>"

definition demo_hasher :: hasher where
  "demo_hasher =
     \<lparr> hasher_hash = (\<lambda>password. ''$argon2id$'' @ password),
       hasher_verify = (\<lambda>stored password.
          case stored of
            None \<Rightarrow> VerifyOtherError
          | Some h \<Rightarrow> if h = ''$argon2id$'' @ password then Verified
                      else VerifyMismatchError) \<rparr>"

definition demo_totp_now :: "string option \<Rightarrow> error + string" where
  "demo_totp_now secret = (case secret of None \<Rightarrow> Inl TypeError | Some _ \<Rightarrow> Inr ''492039'')"

definition alice :: user where
  "alice = \<lparr> u_id = 7000000001, u_email = Some ''alice@example.org'',
             u_password = Some ''$argon2id$wonderland'', u_username = Some ''alice'',
             u_discriminator = Some ''0042'', u_avatar = Some [], u_banner = Some [],
             u_flags = Some 0, u_bot = Some False, u_verified = Some True \<rparr>"

definition robo :: user where
  "robo = \<lparr> u_id = 7000000002, u_email = Some ''robo@example.org'',
            u_password = Some ''$argon2id$beepboop'', u_username = Some ''robo'',
            u_discriminator = Some ''0007'', u_avatar = Some [], u_banner = Some [],
            u_flags = Some 0, u_bot = Some True, u_verified = Some True \<rparr>"

text \<open>The bot \<open>robo\<close> is a member of 2000 guilds.\<close>

definition demo_members :: "member list" where
  "demo_members = map (\<lambda>g. \<lparr> m_guild_id = int g, m_user_id = Some 7000000002 \<rparr>) [0..<2000]"

text \<open>\<open>alice\<close> has MFA enabled and one recovery code.\<close>

definition demo_store :: store where
  "demo_store =
     \<lparr> users = [alice, robo],
       settings_rows = [(new_settings 7000000001)\<lparr> s_mfa_enabled := Some True,
                                                   s_mfa_code := Some ''JBSWY3DPEHPK3PXP'' \<rparr>,
                        new_settings 7000000002],
       recovery_codes = [\<lparr> rc_user_id = 7000000001, rc_code = Some ''rescue-me-1'' \<rparr>],
       members = demo_members,
       gateway_session_limits = [] \<rparr>"

text \<open>
  A store in which the username \<open>bob\<close> is taken by exactly 9000 users, with the
  discriminators \<open>0001\<close> to \<open>9000\<close>.
\<close>

definition bob :: "nat \<Rightarrow> user" where
  "bob n = \<lparr> u_id = 8000000000 + int n, u_email = Some (''bob'' @ str_nat n @ ''@example.org''),
             u_password = Some ''$argon2id$builder'', u_username = Some ''bob'',
             u_discriminator = Some (roll_discriminator n), u_avatar = Some [],
             u_banner = Some [], u_flags = Some 0, u_bot = Some False,
             u_verified = Some False \<rparr>"

definition bob_store :: store where
  "bob_store =
     \<lparr> users = map bob [1..<9001],
       settings_rows = map (\<lambda>n. new_settings (8000000000 + int n)) [1..<9001],
       recovery_codes = [], members = [], gateway_session_limits = [] \<rparr>"

text \<open>
  Tokens for the examples: the tokens of \<open>alice\<close> and \<open>robo\<close> under their stored password
  hashes, a token of \<open>alice\<close> issued under an earlier password hash, and a well-formed
  token for an identifier that no user has.
\<close>

definition alice_token :: string where
  "alice_token = create_token demo_signer 1700000000 7000000001 ''$argon2id$wonderland''"

definition robo_token :: string where
  "robo_token = create_token demo_signer 1700000000 7000000002 ''$argon2id$beepboop''"

definition stale_token :: string where
  "stale_token = create_token demo_signer 1700000000 7000000001 ''$argon2id$looking-glass''"

definition stranger_token :: string where
  "stranger_token = create_token demo_signer 1700000000 42 ''$argon2id$nobody''"

section \<open>Properties\<close>

subsection \<open>objectify\<close>

lemma isinstance_dict_list_objectify:
  "isinstance_dict_list (objectify x) = isinstance_dict_list x"
  by (cases x) auto

text \<open>
  C3. \<open>objectify\<close> is idempotent: for every value \<open>x\<close> (a dict, a list, or anything
  else, which it returns as it is), \<open>objectify (objectify x)\<close> equals \<open>objectify x\<close>.
\<close>

theorem objectify_idempotent: "objectify (objectify x) = objectify x"
proof (induction x rule: objectify.induct)
  case (1 kvs)
  have item: "objectify (objectify item) = objectify item"
    if "(k, PList items) \<in> set kvs" "item \<in> set items" "isinstance_dict_list item"
    for k items item
  proof -
    have nc: "\<not> (isinstance_int (PList items) \<and> 2147483647 < int_value (PList items) \<or>
            isinstance_int (PList items) \<and> str_contains ''permissions'' k)" by simp
    from "1.IH"[OF that(1) refl nc refl that(2) that(3)] show ?thesis .
  qed
  show ?case
    using item by (auto split: pyval.splits simp: isinstance_dict_list_objectify)
next
  case (2 items)
  then show ?case by (auto simp: isinstance_dict_list_objectify)
qed simp_all

text \<open>
  C2. The claim asks that an oversized integer field is rewritten wherever it is nested.
  At the record \<open>{'guild': {'id': 3000000000}}\<close>, the shape of the \<open>CreatedGuild\<close>
  schema (a dict nested directly in a dict), \<open>objectify\<close> returns its input unchanged:
  the integer stays an integer. The same field reached through a list,
  \<open>{'channels': [{'id': 3000000000}]}\<close>, is rewritten to \<open>'3000000000'\<close>.
\<close>

theorem objectify_skips_dict_in_dict:
  "objectify (PDict [(''guild'', PDict [(''id'', PInt 3000000000)])])
     = PDict [(''guild'', PDict [(''id'', PInt 3000000000)])]
   \<and> objectify (PDict [(''channels'', PList [PDict [(''id'', PInt 3000000000)]])])
     = PDict [(''channels'', PList [PDict [(''id'', PStr ''3000000000'')]])]"
  by (simp add: str_int_def str_nat.simps digit_char_def)

subsection \<open>Library round trips: base64, decimal text, splitting\<close>

lemma index_of_nth: "distinct xs \<Longrightarrow> i < length xs \<Longrightarrow> index_of (xs ! i) xs = Some i"
proof (induction xs arbitrary: i)
  case Nil then show ?case by simp
next
  case (Cons y ys)
  show ?case
  proof (cases i)
    case 0 then show ?thesis by simp
  next
    case (Suc j)
    with Cons.prems have "j < length ys" "distinct ys" "ys ! j \<noteq> y" by auto
    with Cons.IH[of j] Suc show ?thesis by simp
  qed
qed

lemma b64_alphabet_length: "length b64_alphabet = 64"
  by (simp add: b64_alphabet_def)

lemma b64_alphabet_distinct: "distinct b64_alphabet"
  by (simp add: b64_alphabet_def)

lemma a2b_b2a: "i < 64 \<Longrightarrow> a2b_char (b2a_char i) = Some i"
  by (simp add: a2b_char_def b2a_char_def index_of_nth b64_alphabet_distinct b64_alphabet_length)

lemma b2a_char_in: "b2a_char i \<in> set b64_alphabet"
  by (simp add: b2a_char_def b64_alphabet_length)

lemma b2a_char_not_pad: "b2a_char i \<noteq> CHR ''=''"
proof -
  have "CHR ''='' \<notin> set b64_alphabet" by (simp add: b64_alphabet_def)
  with b2a_char_in[of i] show ?thesis by auto
qed

lemma b2a_char_not_dot: "b2a_char i \<noteq> CHR ''.''"
proof -
  have "CHR ''.'' \<notin> set b64_alphabet" by (simp add: b64_alphabet_def)
  with b2a_char_in[of i] show ?thesis by auto
qed

lemma b64encode_no_dot: "CHR ''.'' \<notin> set (b64encode s)"
  by (induction s rule: b64encode.induct) (simp_all add: Let_def b2a_char_not_dot[symmetric] not_sym[OF b2a_char_not_dot])

lemma b64_group:
  fixes a b c :: nat
  assumes "a < 256" "b < 256" "c < 256"
  shows "a div 4 < 64" "a mod 4 * 16 + b div 16 < 64" "b mod 16 * 4 + c div 64 < 64" "c mod 64 < 64"
    "a mod 4 * 16 < 64" "b mod 16 * 4 < 64"
    "a div 4 * 4 + (a mod 4 * 16 + b div 16) div 16 = a"
    "(a mod 4 * 16 + b div 16) mod 16 * 16 + (b mod 16 * 4 + c div 64) div 4 = b"
    "(b mod 16 * 4 + c div 64) mod 4 * 64 + c mod 64 = c"
    "a div 4 * 4 + (a mod 4 * 16) div 16 = a"
    "(a mod 4 * 16 + b div 16) mod 16 * 16 + (b mod 16 * 4) div 4 = b"
proof -
  have b16: "b div 16 < 16" and c64: "c div 64 < 4" using assms by simp_all
  have a4: "a mod 4 < 4" and bm: "b mod 16 < 16" by simp_all
  show "a div 4 < 64" using assms by simp
  show "a mod 4 * 16 + b div 16 < 64" using a4 b16 by simp
  show "b mod 16 * 4 + c div 64 < 64" using bm c64 by simp
  show "c mod 64 < 64" by simp
  show "a mod 4 * 16 < 64" using a4 by simp
  show "b mod 16 * 4 < 64" using bm by simp
  have d1: "(a mod 4 * 16 + b div 16) div 16 = a mod 4" using b16 by simp
  have d2: "(a mod 4 * 16 + b div 16) mod 16 = b div 16" using b16 by simp
  have d3: "(b mod 16 * 4 + c div 64) div 4 = b mod 16" using c64 by simp
  have d4: "(b mod 16 * 4 + c div 64) mod 4 = c div 64" using c64 by simp
  show "a div 4 * 4 + (a mod 4 * 16 + b div 16) div 16 = a" by (simp only: d1) simp
  show "(a mod 4 * 16 + b div 16) mod 16 * 16 + (b mod 16 * 4 + c div 64) div 4 = b"
    by (simp only: d2 d3) simp
  show "(b mod 16 * 4 + c div 64) mod 4 * 64 + c mod 64 = c" by (simp only: d4) simp
  show "a div 4 * 4 + (a mod 4 * 16) div 16 = a" by simp
  show "(a mod 4 * 16 + b div 16) mod 16 * 16 + (b mod 16 * 4) div 4 = b"
    by (simp only: d2) simp
qed

lemma a2b_loop_b64encode:
  "a2b_loop 0 l 0 out (b64encode s) = Some (out @ s)"
proof (induction s arbitrary: l out rule: b64encode.induct)
  case 1
  then show ?case by simp
next
  case (2 x)
  show ?case
    using b64_group[of "of_char x" 0 0]
    by (simp add: Let_def b2a_char_not_pad a2b_b2a)
next
  case (3 x y)
  show ?case
    using b64_group[of "of_char x" "of_char y" 0]
    by (simp add: Let_def b2a_char_not_pad a2b_b2a)
next
  case (4 x y z rest)
  show ?case
    using b64_group[of "of_char x" "of_char y" "of_char z"] "4.IH"[OF refl refl refl]
    by (simp add: Let_def b2a_char_not_pad a2b_b2a)
qed

lemma b64decode_b64encode: "b64decode (b64encode s) = Some s"
  by (simp add: b64decode_def a2b_loop_b64encode)

lemma digit_char_is_digit: "is_digit (digit_char d)"
proof -
  have "d mod 10 = 0 \<or> d mod 10 = 1 \<or> d mod 10 = 2 \<or> d mod 10 = 3 \<or> d mod 10 = 4
      \<or> d mod 10 = 5 \<or> d mod 10 = 6 \<or> d mod 10 = 7 \<or> d mod 10 = 8 \<or> d mod 10 = 9"
    by arith
  then show ?thesis
    by (auto simp: digit_char_def is_digit_def)
qed

lemma digit_value_digit_char: "digit_value (digit_char d) = d mod 10"
proof -
  have "d mod 10 = 0 \<or> d mod 10 = 1 \<or> d mod 10 = 2 \<or> d mod 10 = 3 \<or> d mod 10 = 4
      \<or> d mod 10 = 5 \<or> d mod 10 = 6 \<or> d mod 10 = 7 \<or> d mod 10 = 8 \<or> d mod 10 = 9"
    by arith
  then show ?thesis
    by (auto simp: digit_char_def digit_value_def)
qed

lemma str_nat_digits: "\<forall>c \<in> set (str_nat n). is_digit c"
  by (induction n rule: str_nat.induct) (subst str_nat.simps, simp add: digit_char_is_digit)

lemma str_nat_nonempty: "str_nat n \<noteq> []"
  by (subst str_nat.simps) simp

lemma parse_digits_append:
  "\<forall>c \<in> set ds. is_digit c \<Longrightarrow> is_digit d \<Longrightarrow>
   parse_digits acc b (ds @ [d]) = Some (foldl (\<lambda>a c. a * 10 + digit_value c) acc (ds @ [d]))"
  by (induction ds arbitrary: acc b) simp_all

lemma foldl_str_nat: "foldl (\<lambda>a c. a * 10 + digit_value c) 0 (str_nat n) = n"
proof (induction n rule: str_nat.induct)
  case (1 n)
  show ?case
  proof (cases "n < 10")
    case True
    then show ?thesis by (subst str_nat.simps) (simp add: digit_value_digit_char)
  next
    case False
    with 1 show ?thesis by (subst str_nat.simps) (simp add: digit_value_digit_char)
  qed
qed

lemma parse_digits_str_nat: "parse_digits 0 b (str_nat n) = Some n"
proof -
  obtain ds d where sn: "str_nat n = ds @ [d]"
    using str_nat_nonempty[of n] by (metis rev_exhaust)
  with str_nat_digits[of n] have "\<forall>c \<in> set ds. is_digit c" "is_digit d" by auto
  from parse_digits_append[OF this] sn foldl_str_nat[of n] show ?thesis by simp
qed

lemma is_digit_not_space: "is_digit c \<Longrightarrow> \<not> is_space c"
  by (auto simp: is_digit_def is_space_def)

lemma is_digit_not_sign: "is_digit c \<Longrightarrow> c \<noteq> CHR ''-'' \<and> c \<noteq> CHR ''+'' \<and> c \<noteq> CHR ''.''"
  by (auto simp: is_digit_def)

lemma dropWhile_id: "xs \<noteq> [] \<Longrightarrow> \<not> P (hd xs) \<Longrightarrow> dropWhile P xs = xs"
  by (cases xs) auto

lemma py_strip_id: "s \<noteq> [] \<Longrightarrow> \<not> is_space (hd s) \<Longrightarrow> \<not> is_space (last s) \<Longrightarrow> py_strip s = s"
  by (simp add: py_strip_def dropWhile_id hd_rev)

lemma str_nat_hd_last: "is_digit (hd (str_nat n))" "is_digit (last (str_nat n))"
  using str_nat_digits[of n] str_nat_nonempty[of n] by auto

lemma py_int_str_int: "py_int (str_int i) = Some i"
proof (cases "i < 0")
  case True
  have last: "last (CHR ''-'' # str_nat (nat (- i))) = last (str_nat (nat (- i)))"
    using str_nat_nonempty by simp
  have "py_strip (CHR ''-'' # str_nat (nat (- i))) = CHR ''-'' # str_nat (nat (- i))"
  proof (rule py_strip_id)
    show "\<not> is_space (hd (CHR ''-'' # str_nat (nat (- i))))" by (simp add: is_space_def)
    show "\<not> is_space (last (CHR ''-'' # str_nat (nat (- i))))"
      unfolding last by (rule is_digit_not_space) (rule str_nat_hd_last)
  qed simp
  with True show ?thesis
    by (simp add: py_int_def str_int_def parse_digits_str_nat)
next
  case False
  have st: "py_strip (str_nat (nat i)) = str_nat (nat i)"
    by (rule py_strip_id) (simp_all add: str_nat_nonempty is_digit_not_space str_nat_hd_last)
  obtain c cs where cc: "str_nat (nat i) = c # cs"
    using str_nat_nonempty[of "nat i"] by (cases "str_nat (nat i)") auto
  with str_nat_hd_last(1)[of "nat i"] have "is_digit c" by simp
  then have "c \<noteq> CHR ''-''" "c \<noteq> CHR ''+''" using is_digit_not_sign by auto
  with False st cc parse_digits_str_nat[of False "nat i"] show ?thesis
    by (simp add: py_int_def str_int_def)
qed

lemma first_fragment_split:
  "sep \<notin> set a \<Longrightarrow> first_fragment (py_split sep (a @ sep # rest)) = a"
  by (induction a) (auto simp: first_fragment_def split: list.splits)

lemma rsplit1_last:
  "sep \<notin> set b \<Longrightarrow> rsplit1 sep (a @ sep # b) = Some (a, b)"
proof (induction a)
  case Nil
  have "rsplit1 sep b = None" using Nil by (induction b) (auto split: option.splits)
  then show ?case by simp
next
  case (Cons x a)
  then show ?case by simp
qed

lemma rsplit1_None: "rsplit1 sep s = None \<longleftrightarrow> sep \<notin> set s"
  by (induction s) (auto split: option.splits)

subsection \<open>The token codec\<close>

lemma timestamp_sign_split:
  assumes "signer_sound sg"
  shows "rsplit1 CHR ''.'' (timestamp_sign sg key now v)
           = Some (v @ ''.'' @ encode_timestamp sg now,
                   get_signature sg key (v @ ''.'' @ encode_timestamp sg now))"
proof -
  have "CHR ''.'' \<notin> set (get_signature sg key (v @ ''.'' @ encode_timestamp sg now))"
    using assms by (simp add: signer_sound_def)
  from rsplit1_last[OF this, of "v @ ''.'' @ encode_timestamp sg now"]
  show ?thesis by (simp add: timestamp_sign_def Let_def)
qed

lemma timestamp_unsign_sign:
  assumes "signer_sound sg"
  shows "timestamp_unsign sg key (timestamp_sign sg key now v) = Inr v"
proof -
  have ts: "CHR ''.'' \<notin> set (encode_timestamp sg now)"
    and dec: "decode_timestamp sg (encode_timestamp sg now) \<noteq> None"
    and ver: "verify_signature sg key (v @ ''.'' @ encode_timestamp sg now)
                (get_signature sg key (v @ ''.'' @ encode_timestamp sg now))"
    using assms by (simp_all add: signer_sound_def)
  have inner: "rsplit1 CHR ''.'' (v @ CHR ''.'' # encode_timestamp sg now)
                 = Some (v, encode_timestamp sg now)"
    by (rule rsplit1_last[OF ts])
  show ?thesis
    using dec ver
    by (simp add: timestamp_unsign_def signer_unsign_def timestamp_sign_split[OF assms] inner)
qed

lemma timestamp_unsign_other_key:
  assumes "signer_sound sg"
    and "\<not> verify_signature sg key' (v @ ''.'' @ encode_timestamp sg now)
             (get_signature sg key (v @ ''.'' @ encode_timestamp sg now))"
  shows "timestamp_unsign sg key' (timestamp_sign sg key now v) = Inl BadSignature"
proof -
  have ts: "CHR ''.'' \<notin> set (encode_timestamp sg now)"
    using assms(1) by (simp add: signer_sound_def)
  have inner: "rsplit1 CHR ''.'' (v @ CHR ''.'' # encode_timestamp sg now)
                 = Some (v, encode_timestamp sg now)"
    by (rule rsplit1_last[OF ts])
  show ?thesis
    using assms(2)
    by (simp add: timestamp_unsign_def signer_unsign_def timestamp_sign_split[OF assms(1)] inner)
qed

lemma create_token_user_id:
  "Option.bind (b64decode (first_fragment (py_split CHR ''.'' (create_token sg now user_id pw))))
     py_int = Some user_id"
proof -
  have "create_token sg now user_id pw
          = b64encode (str_int user_id) @ CHR ''.'' #
              (encode_timestamp sg now @ ''.'' @
                get_signature sg pw (b64encode (str_int user_id) @ ''.'' @ encode_timestamp sg now))"
    by (simp add: create_token_def timestamp_sign_def Let_def)
  then have "first_fragment (py_split CHR ''.'' (create_token sg now user_id pw))
          = b64encode (str_int user_id)"
    using first_fragment_split[OF b64encode_no_dot] by simp
  then show ?thesis
    by (simp add: b64decode_b64encode py_int_str_int)
qed

lemma select_only_password: "select_fields (Some [''password'']) None = Some [''password'']"
  by (simp add: select_fields_def truthy_list_def user_columns_def)

lemma user_get_only_password:
  "user_get forged rows cond (Some [''password'']) None
     = (case objects_get rows cond of Inl e \<Rightarrow> Inl e
        | Inr row \<Rightarrow> Inr (user_instance forged [''password''] row))"
  by (simp add: user_get_def select_only_password) (simp add: user_columns_def)

lemma verify_token_create_token:
  assumes "signer_sound sg"
    and "objects_get (users st) (\<lambda>u. u_id u = user_id) = Inr row"
    and "u_password row = Some pw"
  shows "verify_token sg forged st (Some (create_token sg now user_id pw)) f r
           = (if as_list f = Some [''id''] then
                Inr ((user_instance forged [''password''] row)\<lparr>u_id := user_id\<rparr>)
              else if truthy_list (as_list f) \<and> truthy_list (as_list r) then
                user_get forged (users st) (\<lambda>u. u_id u = user_id) (as_list f) (as_list r)
              else if truthy_list (as_list f) then
                user_get forged (users st) (\<lambda>u. u_id u = user_id) (as_list f) None
              else if truthy_list (as_list r) then
                user_get forged (users st) (\<lambda>u. u_id u = user_id) None (as_list r)
              else user_get forged (users st) (\<lambda>u. u_id u = user_id) None None)"
proof -
  have uns: "timestamp_unsign sg pw (create_token sg now user_id pw)
               = Inr (b64encode (str_int user_id))"
    unfolding create_token_def by (rule timestamp_unsign_sign[OF assms(1)])
  have pw: "u_password (user_instance forged [''password''] row) = Some pw"
    using assms(3) by (simp add: user_instance_def)
  show ?thesis
    by (simp add: verify_token_def create_token_user_id user_get_only_password assms(2) pw uns
        Let_def)
qed

lemma verify_token_other_password:
  assumes "signer_sound sg"
    and "objects_get (users st) (\<lambda>u. u_id u = user_id) = Inr row"
    and "u_password row = Some pw'"
    and "\<not> verify_signature sg pw' (b64encode (str_int user_id) @ ''.'' @ encode_timestamp sg now)
             (get_signature sg pw (b64encode (str_int user_id) @ ''.'' @ encode_timestamp sg now))"
  shows "verify_token sg forged st (Some (create_token sg now user_id pw)) f r
           = Inl (HTTPError 401 ''Signature on Authorization is Invalid'')"
proof -
  have uns: "timestamp_unsign sg pw' (create_token sg now user_id pw) = Inl BadSignature"
    unfolding create_token_def by (rule timestamp_unsign_other_key[OF assms(1) assms(4)])
  have pw: "u_password (user_instance forged [''password''] row) = Some pw'"
    using assms(3) by (simp add: user_instance_def)
  show ?thesis
    by (simp add: verify_token_def create_token_user_id user_get_only_password assms(2) pw uns
        Let_def)
qed

lemma verify_token_unknown_user:
  assumes "objects_get (users st) (\<lambda>u. u_id u = user_id) = Inl e"
  shows "verify_token sg forged st (Some (create_token sg now user_id pw)) f r
           = Inl (HTTPError 401 ''Object for Authorization not found'')"
  by (simp add: verify_token_def create_token_user_id user_get_only_password assms Let_def)

lemma objects_get_Inr: "objects_get rows cond = Inr row \<Longrightarrow> cond row \<and> row \<in> set rows"
proof -
  assume a: "objects_get rows cond = Inr row"
  then have "filter cond rows = [row]"
    by (auto simp: objects_get_def split: list.splits)
  then have "row \<in> set (filter cond rows)" by simp
  then show ?thesis by simp
qed

lemma user_instance_all: "user_instance forged user_columns row = row"
  by (simp add: user_instance_def user_columns_def)

lemma user_get_all:
  "user_get forged rows cond None None = objects_get rows cond"
  by (simp add: user_get_def select_fields_def truthy_list_def user_instance_all
      split: sum.splits)

lemma str_nat_no_dot: "CHR ''.'' \<notin> set (str_nat n)"
  using str_nat_digits[of n] is_digit_not_sign by blast

lemma demo_signer_sound: "signer_sound demo_signer"
  by (simp add: signer_sound_def demo_signer_def str_nat_no_dot parse_digits_str_nat)

subsection \<open>The concrete store\<close>

lemma alice_row: "objects_get (users demo_store) (\<lambda>u. u_id u = 7000000001) = Inr alice"
  by (simp add: objects_get_def demo_store_def alice_def robo_def)

lemma robo_row: "objects_get (users demo_store) (\<lambda>u. u_id u = 7000000002) = Inr robo"
  by (simp add: objects_get_def demo_store_def alice_def robo_def)

lemma nobody_row: "objects_get (users demo_store) (\<lambda>u. u_id u = 42) = Inl DoesNotExist"
  by (simp add: objects_get_def demo_store_def alice_def robo_def)

lemma alice_password: "u_password alice = Some ''$argon2id$wonderland''"
  by (simp add: alice_def)

lemma robo_password: "u_password robo = Some ''$argon2id$beepboop''"
  by (simp add: robo_def)

lemma alice_id_text: "str_int 7000000001 = ''7000000001''"
  by (simp add: str_int_def str_nat.simps digit_char_def)

lemma alice_payload: "b64encode ''7000000001'' = ''NzAwMDAwMDAwMQ==''"
  by (simp add: b2a_char_def b64_alphabet_def)

lemma demo_clock: "str_nat 1700000000 = ''1700000000''"
  by (simp add: str_nat.simps digit_char_def)

lemma checksum_wonderland:
  "demo_checksum (''$argon2id$wonderland/NzAwMDAwMDAwMQ==.1700000000'') = 13755"
  by (simp add: demo_checksum_def)

lemma checksum_looking_glass:
  "demo_checksum (''$argon2id$looking-glass/NzAwMDAwMDAwMQ==.1700000000'') = 61249"
  by (simp add: demo_checksum_def)

lemma checksums_differ: "str_nat 61249 \<noteq> str_nat 13755"
  by (simp add: str_nat.simps digit_char_def)

lemma stale_signature:
  "\<not> verify_signature demo_signer ''$argon2id$wonderland''
       (b64encode (str_int 7000000001) @ ''.'' @ encode_timestamp demo_signer 1700000000)
       (get_signature demo_signer ''$argon2id$looking-glass''
          (b64encode (str_int 7000000001) @ ''.'' @ encode_timestamp demo_signer 1700000000))"
  by (simp add: demo_signer_def alice_id_text alice_payload demo_clock checksum_wonderland
      checksum_looking_glass checksums_differ del: b64encode.simps)

lemma malformed_token: "b64decode ''!!!'' = Some []" "py_int [] = None"
  by (simp_all add: b64decode_def a2b_char_def b64_alphabet_def py_int_def py_strip_def)

lemma alice_token_valid:
  "verify_token demo_signer forged demo_store (Some alice_token) f r
     = (if as_list f = Some [''id''] then
          Inr ((user_instance forged [''password''] alice)\<lparr>u_id := 7000000001\<rparr>)
        else if truthy_list (as_list f) \<and> truthy_list (as_list r) then
          user_get forged (users demo_store) (\<lambda>u. u_id u = 7000000001) (as_list f) (as_list r)
        else if truthy_list (as_list f) then
          user_get forged (users demo_store) (\<lambda>u. u_id u = 7000000001) (as_list f) None
        else if truthy_list (as_list r) then
          user_get forged (users demo_store) (\<lambda>u. u_id u = 7000000001) None (as_list r)
        else user_get forged (users demo_store) (\<lambda>u. u_id u = 7000000001) None None)"
  unfolding alice_token_def
  by (rule verify_token_create_token[OF demo_signer_sound alice_row alice_password])

lemma stale_token_rejected:
  "verify_token demo_signer forged demo_store (Some stale_token) f r
     = Inl (HTTPError 401 ''Signature on Authorization is Invalid'')"
  unfolding stale_token_def
  by (rule verify_token_other_password[OF demo_signer_sound alice_row alice_password
        stale_signature])

lemma stranger_token_rejected:
  "verify_token demo_signer forged demo_store (Some stranger_token) f r
     = Inl (HTTPError 401 ''Object for Authorization not found'')"
  unfolding stranger_token_def by (rule verify_token_unknown_user[OF nobody_row])

lemma malformed_token_rejected:
  "verify_token sg forged st (Some ''!!!'') f r
     = Inl (HTTPError 401 ''Failed to get container volume for Authorization'')"
  by (simp add: verify_token_def first_fragment_def malformed_token Let_def)

subsection \<open>Claims about the token codec\<close>

text \<open>
  C4. Round trip of the token codec. If a token is created with
  \<open>create_token user_id password_hash\<close> and the store holds exactly one user row with that
  id, whose password is that same hash, then \<open>verify_token\<close> on the token (with no field
  selection) succeeds and returns that row, whose id is \<open>user_id\<close>. The signer is assumed
  to keep its contract (\<open>signer_sound\<close>).
\<close>

theorem token_round_trip:
  assumes "signer_sound sg"
    and "objects_get (users st) (\<lambda>u. u_id u = user_id) = Inr row"
    and "u_password row = Some password_hash"
  shows "verify_token sg forged st (Some (create_token sg now user_id password_hash)) None None
           = Inr row \<and> u_id row = user_id"
  using verify_token_create_token[OF assms, of forged now None None] objects_get_Inr[OF assms(2)]
  by (simp add: truthy_list_def user_get_all assms(2))

theorem token_round_trip_witness:
  "signer_sound demo_signer
   \<and> objects_get (users demo_store) (\<lambda>u. u_id u = 7000000001) = Inr alice
   \<and> u_password alice = Some ''$argon2id$wonderland''
   \<and> verify_token demo_signer 0 demo_store
         (Some (create_token demo_signer 1700000000 7000000001 ''$argon2id$wonderland''))
         None None = Inr alice
   \<and> u_id alice = 7000000001"
  using token_round_trip[OF demo_signer_sound alice_row alice_password, of 0 1700000000]
    demo_signer_sound alice_row alice_password
  by simp

text \<open>
  C5. A token issued under a prior password hash is rejected once the stored hash is a
  different one. For a store that holds the user with the password hash \<open>new_hash\<close>,
  different from \<open>old_hash\<close>, every token created under \<open>old_hash\<close> fails verification with
  the 401 of a bad signature, whatever fields are asked for. The signature is opaque, so
  the theorem assumes what a keyed MAC provides: the signature made under the old hash
  does not verify under the new one. Only the \<open>users\<close> table of the store is mentioned:
  nothing else, and so no list of revoked tokens, takes part.
\<close>

theorem stale_token_unauthorized:
  assumes "signer_sound sg"
    and "objects_get (users st) (\<lambda>u. u_id u = user_id) = Inr row"
    and "u_password row = Some new_hash"
    and "new_hash \<noteq> old_hash"
    and "\<not> verify_signature sg new_hash
             (b64encode (str_int user_id) @ ''.'' @ encode_timestamp sg now)
             (get_signature sg old_hash
                (b64encode (str_int user_id) @ ''.'' @ encode_timestamp sg now))"
  shows "verify_token sg forged st (Some (create_token sg now user_id old_hash)) f r
           = Inl (HTTPError 401 ''Signature on Authorization is Invalid'')"
  by (rule verify_token_other_password[OF assms(1) assms(2) assms(3) assms(5)])

theorem stale_token_unauthorized_witness:
  "signer_sound demo_signer
   \<and> objects_get (users demo_store) (\<lambda>u. u_id u = 7000000001) = Inr alice
   \<and> u_password alice = Some ''$argon2id$wonderland''
   \<and> ''$argon2id$wonderland'' \<noteq> ''$argon2id$looking-glass''
   \<and> \<not> verify_signature demo_signer ''$argon2id$wonderland''
         (b64encode (str_int 7000000001) @ ''.'' @ encode_timestamp demo_signer 1700000000)
         (get_signature demo_signer ''$argon2id$looking-glass''
            (b64encode (str_int 7000000001) @ ''.'' @ encode_timestamp demo_signer 1700000000))
   \<and> verify_token demo_signer 0 demo_store
         (Some (create_token demo_signer 1700000000 7000000001 ''$argon2id$looking-glass''))
         None None
       = Inl (HTTPError 401 ''Signature on Authorization is Invalid'')"
proof -
  have ne: "''$argon2id$wonderland'' \<noteq> ''$argon2id$looking-glass''" by simp
  from stale_token_unauthorized[OF demo_signer_sound alice_row alice_password ne stale_signature,
      of 0 None None]
  show ?thesis
    using demo_signer_sound alice_row alice_password ne stale_signature by blast
qed

text \<open>
  C8 as stated fails: the three failure modes do not produce the same observable outcome.
  On the concrete store, a malformed token, a well-formed token for an unknown user and a
  token with a bad signature are rejected with three different messages.
\<close>

theorem verify_token_failures_differ:
  "verify_token demo_signer 0 demo_store (Some ''!!!'') None None
     = Inl (HTTPError 401 ''Failed to get container volume for Authorization'')
   \<and> verify_token demo_signer 0 demo_store (Some stranger_token) None None
     = Inl (HTTPError 401 ''Object for Authorization not found'')
   \<and> verify_token demo_signer 0 demo_store (Some stale_token) None None
     = Inl (HTTPError 401 ''Signature on Authorization is Invalid'')
   \<and> verify_token demo_signer 0 demo_store (Some ''!!!'') None None
     \<noteq> verify_token demo_signer 0 demo_store (Some stranger_token) None None
   \<and> verify_token demo_signer 0 demo_store (Some stranger_token) None None
     \<noteq> verify_token demo_signer 0 demo_store (Some stale_token) None None"
  by (simp add: malformed_token_rejected stranger_token_rejected stale_token_rejected)

text \<open>
  C8, amended. Each of the three failure modes is an \<open>HTTPError\<close> of status 401, each
  with its own message: an id segment that does not decode to an integer, a decoded id
  for which the user lookup fails, and a signature that \<open>unsign\<close> refuses under the stored
  password. The status is shared; the message tells which check failed.
\<close>

theorem verify_token_failures_401:
  "(Option.bind (b64decode (first_fragment (py_split CHR ''.'' tok))) py_int = None
      \<longrightarrow> verify_token sg forged st (Some tok) f r
            = Inl (HTTPError 401 ''Failed to get container volume for Authorization''))
   \<and> (Option.bind (b64decode (first_fragment (py_split CHR ''.'' tok))) py_int = Some user_id
        \<and> objects_get (users st) (\<lambda>u. u_id u = user_id) = Inl e
      \<longrightarrow> verify_token sg forged st (Some tok) f r
            = Inl (HTTPError 401 ''Object for Authorization not found''))
   \<and> (Option.bind (b64decode (first_fragment (py_split CHR ''.'' tok))) py_int = Some user_id
        \<and> objects_get (users st) (\<lambda>u. u_id u = user_id) = Inr row
        \<and> u_password row = Some password
        \<and> timestamp_unsign sg password tok = Inl e'
      \<longrightarrow> verify_token sg forged st (Some tok) f r
            = Inl (HTTPError 401 ''Signature on Authorization is Invalid''))"
  by (simp add: verify_token_def user_get_only_password user_instance_def Let_def)

theorem verify_token_failures_401_witness:
  "Option.bind (b64decode (first_fragment (py_split CHR ''.'' ''!!!''))) py_int = None
   \<and> verify_token demo_signer 0 demo_store (Some ''!!!'') None None
       = Inl (HTTPError 401 ''Failed to get container volume for Authorization'')
   \<and> Option.bind (b64decode (first_fragment (py_split CHR ''.'' stranger_token))) py_int = Some 42
   \<and> objects_get (users demo_store) (\<lambda>u. u_id u = 42) = Inl DoesNotExist
   \<and> verify_token demo_signer 0 demo_store (Some stranger_token) None None
       = Inl (HTTPError 401 ''Object for Authorization not found'')
   \<and> Option.bind (b64decode (first_fragment (py_split CHR ''.'' stale_token))) py_int
       = Some 7000000001
   \<and> objects_get (users demo_store) (\<lambda>u. u_id u = 7000000001) = Inr alice
   \<and> u_password alice = Some ''$argon2id$wonderland''
   \<and> timestamp_unsign demo_signer ''$argon2id$wonderland'' stale_token = Inl BadSignature
   \<and> verify_token demo_signer 0 demo_store (Some stale_token) None None
       = Inl (HTTPError 401 ''Signature on Authorization is Invalid'')"
proof -
  have h1: "Option.bind (b64decode (first_fragment (py_split CHR ''.'' ''!!!''))) py_int = None"
    by (simp add: first_fragment_def malformed_token)
  have h2: "Option.bind (b64decode (first_fragment (py_split CHR ''.'' stranger_token))) py_int
              = Some 42"
    unfolding stranger_token_def by (rule create_token_user_id)
  have h3: "Option.bind (b64decode (first_fragment (py_split CHR ''.'' stale_token))) py_int
              = Some 7000000001"
    unfolding stale_token_def by (rule create_token_user_id)
  have h4: "timestamp_unsign demo_signer ''$argon2id$wonderland'' stale_token = Inl BadSignature"
    unfolding stale_token_def create_token_def
    by (rule timestamp_unsign_other_key[OF demo_signer_sound stale_signature])
  note t = verify_token_failures_401[where sg = demo_signer and forged = 0 and st = demo_store
      and f = None and r = None]
  have c1: "verify_token demo_signer 0 demo_store (Some ''!!!'') None None
       = Inl (HTTPError 401 ''Failed to get container volume for Authorization'')"
    using t[where tok = "''!!!''"] h1 by blast
  have c2: "verify_token demo_signer 0 demo_store (Some stranger_token) None None
       = Inl (HTTPError 401 ''Object for Authorization not found'')"
    using t[where tok = stranger_token and user_id = 42 and e = DoesNotExist] h2 nobody_row
    by blast
  have c3: "verify_token demo_signer 0 demo_store (Some stale_token) None None
       = Inl (HTTPError 401 ''Signature on Authorization is Invalid'')"
    using t[where tok = stale_token and user_id = 7000000001 and row = alice
        and password = "''$argon2id$wonderland''" and e' = BadSignature]
      h3 alice_row alice_password h4
    by blast
  show ?thesis using h1 h2 h3 h4 c1 c2 c3 nobody_row alice_row alice_password by blast
qed

text \<open>
  C10. With the list \<open>['id']\<close>, \<open>authorize\<close> returns the instance that was fetched with
  only the password column, with its id assigned: it carries the stored password hash, and
  every other column reads as its default. With the string \<open>'id'\<close> the special case is
  not reached: \<open>list('id')\<close> is \<open>['i', 'd']\<close>, which is neither \<open>'id'\<close> nor \<open>['id']\<close>, and
  the query \<open>only(['i', 'd'])\<close> is refused.
\<close>

theorem authorize_id_string_not_special_cased:
  "authorize demo_signer 0 demo_store (Some alice_token) (Some (FieldStr ''id'')) None
     = Inl QueryException
   \<and> authorize demo_signer 0 demo_store (Some alice_token) (Some (FieldList [''id''])) None
     = Inr \<lparr> u_id = 7000000001, u_email = None, u_password = Some ''$argon2id$wonderland'',
              u_username = None, u_discriminator = None, u_avatar = Some [],
              u_banner = Some [], u_flags = Some 0, u_bot = Some False,
              u_verified = Some False \<rparr>"
  by (simp add: authorize_def alice_token_valid truthy_list_def user_get_def user_columns_def
      user_instance_def alice_def)

subsection \<open>Claims about login\<close>

lemma user_get_password_id:
  "user_get forged rows cond (Some [''password'', ''id'']) None
     = (case objects_get rows cond of Inl e \<Rightarrow> Inl e
        | Inr row \<Rightarrow> Inr (user_instance forged [''id'', ''password''] row))"
  by (simp add: user_get_def select_fields_def truthy_list_def user_columns_def)

lemma objects_get_absent:
  "\<forall>r \<in> set rows. \<not> cond r \<Longrightarrow> objects_get rows cond = Inl DoesNotExist"
  by (simp add: objects_get_def)

text \<open>
  C6. Login with the email of an existing user and a wrong password, and login with an
  email that no user has, fail with the same error: the same status 400 and the same
  message. This holds for every store, and for every clock, signer and TOTP value of the
  two runs.
\<close>

theorem login_failures_indistinguishable:
  assumes "objects_get (users st) (\<lambda>u. u_email u = Some (json_email j1)) = Inr row"
    and "hasher_verify hs (u_password row) (json_password j1) = VerifyMismatchError"
    and "\<forall>u \<in> set (users st). u_email u \<noteq> Some (json_email j2)"
  shows "login sg now1 hs totp1 forged1 st j1 = Inl (HTTPError 400 ''Invalid email or password'')
       \<and> login sg now2 hs totp2 forged2 st j2 = Inl (HTTPError 400 ''Invalid email or password'')"
proof -
  have "objects_get (users st) (\<lambda>u. u_email u = Some (json_email j2)) = Inl DoesNotExist"
    using assms(3) by (simp add: objects_get_absent)
  then show ?thesis
    using assms(1,2) by (simp add: login_def user_get_password_id user_instance_def)
qed

lemma alice_by_email:
  "objects_get (users demo_store) (\<lambda>u. u_email u = Some ''alice@example.org'') = Inr alice"
  by (simp add: objects_get_def demo_store_def alice_def robo_def)

theorem login_failures_indistinguishable_witness:
  "objects_get (users demo_store)
     (\<lambda>u. u_email u = Some (json_email \<lparr> json_email = ''alice@example.org'',
                json_password = ''queen-of-hearts'', json_code = None \<rparr>)) = Inr alice
   \<and> hasher_verify demo_hasher (u_password alice) ''queen-of-hearts'' = VerifyMismatchError
   \<and> objects_get (users demo_store) (\<lambda>u. u_email u = Some ''hatter@example.org'')
       = Inl DoesNotExist
   \<and> login demo_signer 1700000000 demo_hasher demo_totp_now 0 demo_store
        \<lparr> json_email = ''alice@example.org'', json_password = ''queen-of-hearts'',
          json_code = None \<rparr>
       = Inl (HTTPError 400 ''Invalid email or password'')
   \<and> login demo_signer 1700000000 demo_hasher demo_totp_now 0 demo_store
        \<lparr> json_email = ''hatter@example.org'', json_password = ''queen-of-hearts'',
          json_code = None \<rparr>
       = Inl (HTTPError 400 ''Invalid email or password'')"
proof -
  let ?j1 = "\<lparr> json_email = ''alice@example.org'', json_password = ''queen-of-hearts'',
               json_code = None \<rparr>"
  let ?j2 = "\<lparr> json_email = ''hatter@example.org'', json_password = ''queen-of-hearts'',
               json_code = None \<rparr>"
  have h1: "objects_get (users demo_store) (\<lambda>u. u_email u = Some (json_email ?j1)) = Inr alice"
    using alice_by_email by simp
  have h2: "hasher_verify demo_hasher (u_password alice) (json_password ?j1)
              = VerifyMismatchError"
    by (simp add: demo_hasher_def alice_def)
  have h3: "\<forall>u \<in> set (users demo_store). u_email u \<noteq> Some (json_email ?j2)"
    by (simp add: demo_store_def alice_def robo_def)
  from login_failures_indistinguishable[OF h1 h2 h3, of demo_signer 1700000000 demo_totp_now 0
      1700000000 demo_totp_now 0]
  show ?thesis using h1 h2 h3 by (simp add: objects_get_absent)
qed

text \<open>
  C1. On the concrete store \<open>alice\<close> has MFA enabled, the recovery code \<open>rescue-me-1\<close>
  and the live TOTP value \<open>492039\<close>. Her login with the right password and her recovery
  code is refused as an invalid MFA code, and so is her login with the live TOTP value:
  the condition \<open>code not in recoveries or code != totp.now()\<close> refuses every code that
  is not both at once.
\<close>

theorem login_refuses_recovery_code:
  "login demo_signer 1700000000 demo_hasher demo_totp_now 0 demo_store
      \<lparr> json_email = ''alice@example.org'', json_password = ''wonderland'',
        json_code = Some (CodeStr ''rescue-me-1'') \<rparr>
     = Inl (HTTPError 403 ''mfa code is invalid.'')
   \<and> login demo_signer 1700000000 demo_hasher demo_totp_now 0 demo_store
      \<lparr> json_email = ''alice@example.org'', json_password = ''wonderland'',
        json_code = Some (CodeStr ''492039'') \<rparr>
     = Inl (HTTPError 403 ''mfa code is invalid.'')
   \<and> get_recoveries demo_store 7000000001 = [Some ''rescue-me-1'']
   \<and> demo_totp_now (Some ''JBSWY3DPEHPK3PXP'') = Inr ''492039''"
proof -
  have st: "objects_get (settings_rows demo_store) (\<lambda>s. s_user_id s = 7000000001)
              = Inr ((new_settings 7000000001)\<lparr> s_mfa_enabled := Some True,
                       s_mfa_code := Some ''JBSWY3DPEHPK3PXP'' \<rparr>)"
    by (simp add: objects_get_def demo_store_def new_settings_def)
  have rc: "get_recoveries demo_store 7000000001 = [Some ''rescue-me-1'']"
    by (simp add: get_recoveries_def demo_store_def)
  have m1: "verify_mfa demo_totp_now demo_store 7000000001 (Some (CodeStr ''rescue-me-1''))
              = Inl (HTTPError 403 ''mfa code is invalid.'')"
    by (simp add: verify_mfa_def st rc truthy_bool_def demo_totp_now_def)
  have m2: "verify_mfa demo_totp_now demo_store 7000000001 (Some (CodeStr ''492039''))
              = Inl (HTTPError 403 ''mfa code is invalid.'')"
    by (simp add: verify_mfa_def st rc truthy_bool_def demo_totp_now_def)
  have hv: "hasher_verify demo_hasher (Some ''$argon2id$wonderland'') ''wonderland'' = Verified"
    by (simp add: demo_hasher_def)
  have id: "u_id alice = 7000000001" by (simp add: alice_def)
  show ?thesis
    by (simp add: login_def user_get_password_id alice_by_email user_instance_def
        alice_password id hv m1 m2 rc demo_totp_now_def)
qed

subsection \<open>Claims about the gateway\<close>

lemma robo_token_id_only:
  "authorize demo_signer 0 demo_store (Some robo_token) (Some (FieldList [''id''])) None
     = Inr \<lparr> u_id = 7000000002, u_email = None, u_password = Some ''$argon2id$beepboop'',
              u_username = None, u_discriminator = None, u_avatar = Some [],
              u_banner = Some [], u_flags = Some 0, u_bot = Some False,
              u_verified = Some False \<rparr>"
  unfolding authorize_def robo_token_def
  by (simp add: verify_token_create_token[OF demo_signer_sound robo_row robo_password]
      user_instance_def robo_def)

lemma robo_guild_count:
  "objects_count (members demo_store) (\<lambda>m. m_user_id m = Some 7000000002) = 2000"
  by (simp add: objects_count_def demo_store_def demo_members_def filter_map o_def)

text \<open>
  C9. On the concrete store the bot account \<open>robo\<close> (stored \<open>bot\<close> flag true) is a member
  of 2000 guilds and has no ledger entry. \<open>get_gateway\<close> with its token creates the entry
  with the defaults and returns it without the \<open>user_id\<close> key, but the shard count it
  returns is 1, not \<open>max (2000 div 1000) 1 = 2\<close>: the user came from \<open>authorize\<close> with
  \<open>['id']\<close>, an instance fetched with only the password column, whose \<open>bot\<close> reads as the
  column default \<open>False\<close>.
\<close>

theorem get_gateway_bot_gets_one_shard:
  "get_gateway demo_signer 0 demo_store (Some robo_token)
     = Inr (\<lparr> url = ''wss://gateway.derailed.one'', shards = 1,
              session_start_limit = [(''total'', PInt 1000), (''remaining'', PInt 1000),
                                     (''max_concurrency'', PInt 16)] \<rparr>,
            demo_store\<lparr>gateway_session_limits :=
                         [new_gateway_session_limit 7000000002]\<rparr>)
   \<and> u_bot robo = Some True
   \<and> objects_count (members demo_store) (\<lambda>m. m_user_id m = Some 7000000002) = 2000
   \<and> max (2000 div 1000) 1 = (2::nat)"
proof -
  have empty: "gateway_session_limits demo_store = []"
    by (simp add: demo_store_def)
  have "get_gateway demo_signer 0 demo_store (Some robo_token)
     = Inr (\<lparr> url = ''wss://gateway.derailed.one'', shards = 1,
              session_start_limit = [(''total'', PInt 1000), (''remaining'', PInt 1000),
                                     (''max_concurrency'', PInt 16)] \<rparr>,
            demo_store\<lparr>gateway_session_limits :=
                         [new_gateway_session_limit 7000000002]\<rparr>)"
    by (simp add: get_gateway_def robo_token_id_only empty objects_get_def truthy_bool_def
        gsl_dict_def dict_pop_def new_gateway_session_limit_def objects_create_def Let_def)
  then show ?thesis
    by (simp add: robo_guild_count robo_def)
qed

subsection \<open>Discriminators\<close>

lemma parse_digits_zeros:
  "parse_digits 0 b (replicate k CHR ''0'' @ s) = parse_digits 0 (b \<or> 0 < k) s"
proof (induction k arbitrary: b)
  case 0
  then show ?case by simp
next
  case (Suc k)
  have d: "is_digit CHR ''0''" "digit_value CHR ''0'' = 0"
    by (simp_all add: is_digit_def digit_value_def)
  show ?case using Suc[of True] by (simp add: d)
qed

lemma parse_roll_discriminator: "parse_digits 0 False (roll_discriminator n) = Some n"
  unfolding roll_discriminator_def by (simp only: parse_digits_zeros parse_digits_str_nat)

lemma roll_discriminator_inj:
  assumes "roll_discriminator m = roll_discriminator n"
  shows "m = n"
proof -
  have "Some m = parse_digits 0 False (roll_discriminator m)"
    by (simp only: parse_roll_discriminator)
  also have "\<dots> = parse_digits 0 False (roll_discriminator n)"
    by (simp only: assms)
  also have "\<dots> = Some n"
    by (simp only: parse_roll_discriminator)
  finally show ?thesis by simp
qed

lemma filter_inj_le1:
  "distinct xs \<Longrightarrow> (\<And>m n. f m = f n \<Longrightarrow> m = n) \<Longrightarrow> length (filter (\<lambda>n. f n = d) xs) \<le> 1"
proof (induction xs)
  case Nil
  then show ?case by simp
next
  case (Cons x xs)
  show ?case
  proof (cases "f x = d")
    case True
    have "filter (\<lambda>n. f n = d) xs = []"
    proof (rule ccontr)
      assume "filter (\<lambda>n. f n = d) xs \<noteq> []"
      then obtain y where "y \<in> set xs" "f y = d"
        by (metis (mono_tags, lifting) filter_False)
      with True Cons.prems(2)[of x y] have "x = y" by simp
      with \<open>y \<in> set xs\<close> Cons.prems(1) show False by simp
    qed
    with True show ?thesis by simp
  next
    case False
    with Cons show ?thesis by simp
  qed
qed

text \<open>
  With each (username, discriminator) pair held by at most one row, the loop returns the
  first drawn discriminator that no row of that username holds.
\<close>

lemma discriminator_attempts_find:
  assumes "\<And>d. length (filter (\<lambda>u. u_username u = Some username \<and> u_discriminator u = Some d)
                      (users st)) \<le> 1"
  shows "discriminator_attempts st username ns
           = Inr (find (\<lambda>d. filter (\<lambda>u. u_username u = Some username \<and> u_discriminator u = Some d)
                              (users st) = [])
                       (map roll_discriminator ns))"
proof (induction ns)
  case Nil
  then show ?case by simp
next
  case (Cons n ns)
  let ?m = "filter (\<lambda>u. u_username u = Some username
                        \<and> u_discriminator u = Some (roll_discriminator n)) (users st)"
  have "length ?m \<le> 1" by (rule assms)
  then consider "?m = []" | r where "?m = [r]"
    by (cases ?m) (auto simp: Suc_le_eq)
  then show ?case
  proof cases
    case 1
    then show ?thesis by (simp add: objects_get_def Let_def)
  next
    case 2
    then show ?thesis using Cons.IH by (simp add: objects_get_def Let_def)
  qed
qed

lemma create_user_allocation:
  assumes "\<forall>u \<in> set (users st). u_email u \<noteq> Some (cu_email json)"
    and "\<forall>d. length (filter (\<lambda>u. u_username u = Some (cu_username json)
                                \<and> u_discriminator u = Some d) (users st)) \<le> 1"
  shows "create_user hs forged draw st json
     = (if 9000 < objects_count (users st) (\<lambda>u. u_username u = Some (cu_username json))
        then Inl (HTTPError 400 ''Too many people are using this username.'')
        else (case find (\<lambda>d. filter (\<lambda>u. u_username u = Some (cu_username json)
                                       \<and> u_discriminator u = Some d) (users st) = [])
                     (map (\<lambda>i. roll_discriminator (draw i)) [0..<10]) of
                None \<Rightarrow> Inl (HTTPError 400 ''Too many people are using this username.'')
              | Some discriminator \<Rightarrow>
                  Inr (new_user forged (cu_username json) (cu_email json)
                         (hasher_hash hs (cu_password json)) discriminator,
                       st\<lparr>users :=
                            objects_create u_id
                              (new_user forged (cu_username json) (cu_email json)
                                 (hasher_hash hs (cu_password json)) discriminator)
                              (users st),
                          settings_rows :=
                            objects_create s_user_id (new_settings forged)
                              (settings_rows st)\<rparr>)))"
proof -
  have em: "objects_get (users st) (\<lambda>u. u_email u = Some (cu_email json)) = Inl DoesNotExist"
    using assms(1) by (simp add: objects_get_absent)
  have at: "discriminator_attempts st (cu_username json) (map draw [0..<10])
      = Inr (find (\<lambda>d. filter (\<lambda>u. u_username u = Some (cu_username json)
                                    \<and> u_discriminator u = Some d) (users st) = [])
                  (map (\<lambda>i. roll_discriminator (draw i)) [0..<10]))"
    using discriminator_attempts_find[of "cu_username json" st "map draw [0..<10]"] assms(2)
    by (simp add: o_def)
  show ?thesis
    by (simp add: create_user_def em get_available_discriminator_def is_too_used_def at
        Let_def new_user_def split: option.splits)
qed

subsection \<open>The store with 9000 users named bob\<close>

lemma users_bob_store: "users bob_store = map bob [1..<9001]"
  by (simp add: bob_store_def del: upt_rec_numeral)

lemma bob_username: "filter (\<lambda>u. u_username u = Some ''bob'') (map bob ns) = map bob ns"
  by (induction ns) (simp_all add: bob_def)

lemma bob_count: "objects_count (users bob_store) (\<lambda>u. u_username u = Some ''bob'') = 9000"
  by (simp add: objects_count_def users_bob_store bob_username del: upt_rec_numeral)

lemma bob_discriminators_distinct:
  assumes "distinct ns"
  shows "distinct (map u_discriminator (map bob ns))"
proof -
  have m: "map u_discriminator (map bob ns) = map (\<lambda>n. Some (roll_discriminator n)) ns"
    by (simp add: bob_def)
  have "inj_on (\<lambda>n. Some (roll_discriminator n)) (set ns)"
    by (rule inj_onI) (simp add: roll_discriminator_inj)
  with assms show ?thesis
    unfolding m by (simp only: distinct_map simp_thms)
qed

lemma bob_distinct_count:
  "length (remdups (map u_discriminator
      (filter (\<lambda>u. u_username u = Some ''bob'') (users bob_store)))) = 9000"
proof -
  have d: "distinct (map u_discriminator (map bob [1..<9001]))"
    by (rule bob_discriminators_distinct) (rule distinct_upt)
  have "length (remdups (map u_discriminator (map bob [1..<9001])))
          = length (map u_discriminator (map bob [1..<9001]))"
    by (simp only: distinct_remdups_id[OF d])
  also have "\<dots> = 9000"
    by (simp del: upt_rec_numeral)
  finally show ?thesis
    by (simp only: users_bob_store bob_username)
qed

lemma bob_pairs_unique:
  "length (filter (\<lambda>u. u_username u = Some ''bob'' \<and> u_discriminator u = Some d)
             (users bob_store)) \<le> 1"
proof -
  have "filter (\<lambda>u. u_username u = Some ''bob'' \<and> u_discriminator u = Some d) (map bob ns)
          = map bob (filter (\<lambda>n. roll_discriminator n = d) ns)" for ns
    by (induction ns) (simp_all add: bob_def)
  then have "length (filter (\<lambda>u. u_username u = Some ''bob'' \<and> u_discriminator u = Some d)
                       (users bob_store))
               = length (filter (\<lambda>n. roll_discriminator n = d) [1..<9001])"
    by (simp add: users_bob_store del: upt_rec_numeral)
  also have "\<dots> \<le> 1"
    by (rule filter_inj_le1[OF distinct_upt roll_discriminator_inj])
  finally show ?thesis .
qed

lemma bob_email_free:
  "\<forall>u \<in> set (users bob_store). u_email u \<noteq> Some ''newbob@example.org''"
  by (simp add: users_bob_store bob_def del: upt_rec_numeral)

lemma bob_9001_free:
  "filter (\<lambda>u. u_username u = Some ''bob'' \<and> u_discriminator u = Some (roll_discriminator 9001))
     (users bob_store) = []"
proof -
  have "roll_discriminator n \<noteq> roll_discriminator 9001" if "n \<in> set [1..<9001]" for n
  proof
    assume "roll_discriminator n = roll_discriminator 9001"
    then have "n = 9001" by (rule roll_discriminator_inj)
    with that show False by simp
  qed
  then show ?thesis
    by (simp add: users_bob_store filter_empty_conv bob_def del: upt_rec_numeral set_upt)
qed

lemma roll_9001: "roll_discriminator 9001 = ''9001''"
  by (simp add: roll_discriminator_def str_nat.simps digit_char_def)

lemma bob_registration:
  "create_user demo_hasher 8000009001 (\<lambda>i. 9001) bob_store
      \<lparr> cu_email = ''newbob@example.org'', cu_username = ''bob'', cu_password = ''builder'' \<rparr>
     = Inr (new_user 8000009001 ''bob'' ''newbob@example.org'' ''$argon2id$builder'' ''9001'',
            bob_store\<lparr>users :=
                        objects_create u_id
                          (new_user 8000009001 ''bob'' ''newbob@example.org''
                             ''$argon2id$builder'' ''9001'')
                          (users bob_store),
                      settings_rows :=
                        objects_create s_user_id (new_settings 8000009001)
                          (settings_rows bob_store)\<rparr>)"
proof -
  let ?json = "\<lparr> cu_email = ''newbob@example.org'', cu_username = ''bob'',
                  cu_password = ''builder'' \<rparr>"
  have e: "\<forall>u \<in> set (users bob_store). u_email u \<noteq> Some (cu_email ?json)"
    using bob_email_free by simp
  have p: "\<forall>d. length (filter (\<lambda>u. u_username u = Some (cu_username ?json)
                                \<and> u_discriminator u = Some d) (users bob_store)) \<le> 1"
    using bob_pairs_unique by simp
  have ten: "[0..<10] = 0 # [1..<10]"
    by (simp add: upt_conv_Cons)
  show ?thesis
    unfolding create_user_allocation[OF e p]
    by (simp add: bob_count ten bob_9001_free roll_9001[symmetric] demo_hasher_def
        del: upt_rec_numeral)
qed

subsection \<open>Claims about registration\<close>

text \<open>
  C7 as stated fails at its threshold. In the concrete store the username \<open>bob\<close> is held
  by exactly 9000 users with 9000 distinct discriminators, and a registration for \<open>bob\<close>
  whose first roll draws 9001 is not rejected: it creates the user \<open>bob#9001\<close>, the
  9001st distinct discriminator of that username.
\<close>

theorem registration_at_9000_succeeds:
  "objects_count (users bob_store) (\<lambda>u. u_username u = Some ''bob'') = 9000
   \<and> length (remdups (map u_discriminator
         (filter (\<lambda>u. u_username u = Some ''bob'') (users bob_store)))) = 9000
   \<and> create_user demo_hasher 8000009001 (\<lambda>i. 9001) bob_store
        \<lparr> cu_email = ''newbob@example.org'', cu_username = ''bob'', cu_password = ''builder'' \<rparr>
       = Inr (new_user 8000009001 ''bob'' ''newbob@example.org'' ''$argon2id$builder'' ''9001'',
              bob_store\<lparr>users :=
                          objects_create u_id
                            (new_user 8000009001 ''bob'' ''newbob@example.org''
                               ''$argon2id$builder'' ''9001'')
                            (users bob_store),
                        settings_rows :=
                          objects_create s_user_id (new_settings 8000009001)
                            (settings_rows bob_store)\<rparr>)"
  by (simp only: bob_count bob_distinct_count bob_registration simp_thms)

text \<open>
  C7, amended. For a registration whose email no user has, in a store where each
  (username, discriminator) pair is held by at most one user: if more than 9000 users
  hold the username, registration is rejected with the username-saturated error;
  otherwise the ten rolls are tried in order, the first drawn discriminator that no user
  of that username holds wins and the user and its settings are created with it, and if
  all ten are held registration fails with the same error.
\<close>

theorem registration_discriminator_allocation:
  assumes "\<forall>u \<in> set (users st). u_email u \<noteq> Some (cu_email json)"
    and "\<forall>d. length (filter (\<lambda>u. u_username u = Some (cu_username json)
                                \<and> u_discriminator u = Some d) (users st)) \<le> 1"
  shows "create_user hs forged draw st json
     = (if 9000 < objects_count (users st) (\<lambda>u. u_username u = Some (cu_username json))
        then Inl (HTTPError 400 ''Too many people are using this username.'')
        else (case find (\<lambda>d. filter (\<lambda>u. u_username u = Some (cu_username json)
                                       \<and> u_discriminator u = Some d) (users st) = [])
                     (map (\<lambda>i. roll_discriminator (draw i)) [0..<10]) of
                None \<Rightarrow> Inl (HTTPError 400 ''Too many people are using this username.'')
              | Some discriminator \<Rightarrow>
                  Inr (new_user forged (cu_username json) (cu_email json)
                         (hasher_hash hs (cu_password json)) discriminator,
                       st\<lparr>users :=
                            objects_create u_id
                              (new_user forged (cu_username json) (cu_email json)
                                 (hasher_hash hs (cu_password json)) discriminator)
                              (users st),
                          settings_rows :=
                            objects_create s_user_id (new_settings forged)
                              (settings_rows st)\<rparr>)))"
  by (rule create_user_allocation[OF assms])

lemma bob_42_taken:
  "filter (\<lambda>u. u_username u = Some ''bob'' \<and> u_discriminator u = Some (roll_discriminator 42))
     (users bob_store) \<noteq> []"
proof -
  have "bob 42 \<in> set (users bob_store)"
    by (simp add: users_bob_store del: upt_rec_numeral)
  moreover have "u_username (bob 42) = Some ''bob''
      \<and> u_discriminator (bob 42) = Some (roll_discriminator 42)"
    by (simp add: bob_def)
  ultimately show ?thesis
    by (simp only: filter_empty_conv) blast
qed

theorem registration_discriminator_allocation_witness:
  "objects_get (users bob_store) (\<lambda>u. u_email u = Some ''newbob@example.org'')
     = Inl DoesNotExist
   \<and> create_user demo_hasher 8000009001 (\<lambda>i. if i = 0 then 42 else 9001) bob_store
        \<lparr> cu_email = ''newbob@example.org'', cu_username = ''bob'', cu_password = ''builder'' \<rparr>
       = Inr (new_user 8000009001 ''bob'' ''newbob@example.org'' ''$argon2id$builder'' ''9001'',
              bob_store\<lparr>users :=
                          objects_create u_id
                            (new_user 8000009001 ''bob'' ''newbob@example.org''
                               ''$argon2id$builder'' ''9001'')
                            (users bob_store),
                        settings_rows :=
                          objects_create s_user_id (new_settings 8000009001)
                            (settings_rows bob_store)\<rparr>)"
proof -
  let ?json = "\<lparr> cu_email = ''newbob@example.org'', cu_username = ''bob'',
                  cu_password = ''builder'' \<rparr>"
  have e: "\<forall>u \<in> set (users bob_store). u_email u \<noteq> Some (cu_email ?json)"
    using bob_email_free by simp
  have p: "\<forall>d. length (filter (\<lambda>u. u_username u = Some (cu_username ?json)
                                \<and> u_discriminator u = Some d) (users bob_store)) \<le> 1"
    using bob_pairs_unique by simp
  have ten: "[0..<10] = 0 # 1 # [2..<10]"
    by (simp add: upt_conv_Cons)
  have "create_user demo_hasher 8000009001 (\<lambda>i. if i = 0 then 42 else 9001) bob_store ?json
       = Inr (new_user 8000009001 ''bob'' ''newbob@example.org'' ''$argon2id$builder'' ''9001'',
              bob_store\<lparr>users :=
                          objects_create u_id
                            (new_user 8000009001 ''bob'' ''newbob@example.org''
                               ''$argon2id$builder'' ''9001'')
                            (users bob_store),
                        settings_rows :=
                          objects_create s_user_id (new_settings 8000009001)
                            (settings_rows bob_store)\<rparr>)"
    unfolding registration_discriminator_allocation[OF e p]
    by (simp add: bob_count ten bob_9001_free bob_42_taken roll_9001[symmetric] demo_hasher_def
        del: upt_rec_numeral)
  then show ?thesis
    using objects_get_absent[OF bob_email_free] by simp
qed

end
